theory Spec2Isabelle
  imports Main "HOL-Library.Word" "HOL-Library.AList"
begin

section \<open>Common data\<close>

text \<open>
  A \<open>Buffer\<close> or \<open>Uint8Array\<close> is a list of bytes. A \<open>Date\<close> is its
  \<open>getTime()\<close> value in milliseconds. A \<open>PublicKey\<close> is represented by its canonical
  base58 text, so \<open>a.equals(b)\<close> is equality and \<open>toBase58()\<close> is the identity.
\<close>

type_synonym bytes = "8 word list"
type_synonym Date = nat
type_synonym PublicKey = string

text \<open>File \<open>types.ts\<close>: the ten error codes of \<open>SeedVaultErrorCode\<close>.\<close>

datatype SeedVaultErrorCode =
    VAULT_LOCKED
  | INVALID_MNEMONIC
  | WALLET_NOT_FOUND
  | INVALID_DERIVATION_PATH
  | ENCRYPTION_FAILED
  | DECRYPTION_FAILED
  | INVALID_TRANSACTION
  | SIGNING_FAILED
  | STORAGE_ERROR
  | INVALID_PASSWORD

text \<open>
  \<open>SeedVaultError\<close>: an \<open>Error\<close> with a \<open>code\<close>. Its \<open>context\<close> is
  always the empty object in this code and is left out.
\<close>

record SeedVaultError =
  code :: SeedVaultErrorCode
  message :: string

definition createError :: "SeedVaultErrorCode \<Rightarrow> string \<Rightarrow> SeedVaultError" where
  "createError c m = \<lparr>code = c, message = m\<rparr>"

record DerivationPathComponents =
  purpose :: nat
  coinType :: nat
  account :: nat
  change :: nat
  addressIndex :: nat

record Keypair =
  kp_publicKey :: PublicKey
  kp_secretKey :: bytes

text \<open>The object \<open>{mnemonic, secretKey}\<close> that the vault serialises and encrypts.\<close>

record KeyMaterial =
  km_mnemonic :: string
  km_secretKey :: bytes

text \<open>
  \<open>Transaction\<close>, \<open>TransactionInstruction\<close> and \<open>AccountMeta\<close> of
  \<open>@solana/web3.js\<close>, with the fields this code reads and writes. A field the code
  tests for presence (\<open>!instruction.programId\<close>, \<open>!key.pubkey\<close>,
  \<open>!transaction.feePayer\<close>) is an option.
\<close>

record AccountMeta =
  pubkey :: "PublicKey option"
  isSigner :: bool
  isWritable :: bool

record TransactionInstruction =
  programId :: "PublicKey option"
  keys :: "AccountMeta list"
  data :: bytes

record SignaturePubkeyPair =
  sig_publicKey :: PublicKey
  sig_signature :: "bytes option"

record Transaction =
  feePayer :: "PublicKey option"
  recentBlockhash :: "string option"
  instructions :: "TransactionInstruction list"
  signatures :: "SignaturePubkeyPair list"

section \<open>External libraries\<close>

text \<open>
  The functions of Node's \<open>crypto\<close> and \<open>Buffer\<close>, of \<open>bip39\<close>,
  \<open>ed25519-hd-key\<close>, \<open>@solana/web3.js\<close>, \<open>tweetnacl\<close> and \<open>JSON\<close>
  that the code calls. They are parameters of the model. A call that can throw returns
  \<open>Inl m\<close> with the message \<open>m\<close> of the thrown \<open>Error\<close>.
  \<open>JSON_stringify\<close> and \<open>JSON_parse\<close> are \<open>JSON.stringify\<close> and
  \<open>JSON.parse\<close> on the object \<open>{mnemonic, secretKey}\<close>.
\<close>

record Libraries =
  bip39_validateMnemonic :: "string \<Rightarrow> bool"
  bip39_mnemonicToSeedSync :: "string \<Rightarrow> string \<Rightarrow> bytes"
  hd_derivePath :: "string \<Rightarrow> bytes \<Rightarrow> string + bytes"
  Keypair_fromSeed :: "bytes \<Rightarrow> string + Keypair"
  pbkdf2Sync :: "string \<Rightarrow> bytes \<Rightarrow> nat \<Rightarrow> nat \<Rightarrow> bytes"
  aes256cbc_cipher :: "bytes \<Rightarrow> bytes \<Rightarrow> bytes \<Rightarrow> string + bytes"
  aes256cbc_decipher :: "bytes \<Rightarrow> bytes \<Rightarrow> bytes \<Rightarrow> string + bytes"
  utf8_encode :: "string \<Rightarrow> bytes"
  utf8_decode :: "bytes \<Rightarrow> string"
  hex_encode :: "bytes \<Rightarrow> string"
  hex_decode :: "string \<Rightarrow> bytes"
  base64_encode :: "bytes \<Rightarrow> string"
  base64_decode :: "string \<Rightarrow> bytes"
  sha256_hex :: "bytes \<Rightarrow> string"
  nacl_sign_detached :: "bytes \<Rightarrow> bytes \<Rightarrow> string + bytes"
  JSON_stringify :: "KeyMaterial \<Rightarrow> string"
  JSON_parse :: "string \<Rightarrow> string + KeyMaterial"
  Transaction_serialize :: "Transaction \<Rightarrow> string + bytes"

section \<open>CryptoUtils\<close>

subsection \<open>Numbers in template literals\<close>

definition is_digit :: "char \<Rightarrow> bool" where
  "is_digit c \<longleftrightarrow> 48 \<le> (of_char c :: nat) \<and> (of_char c :: nat) \<le> 57"

definition char_of_digit :: "nat \<Rightarrow> char" where
  "char_of_digit d = ''0123456789'' ! d"

definition digit_of_char :: "char \<Rightarrow> nat" where
  "digit_of_char c = of_char c - 48"

fun decimal :: "nat \<Rightarrow> string" where
  "decimal n = (if n < 10 then [char_of_digit n] else decimal (n div 10) @ [char_of_digit (n mod 10)])"

declare decimal.simps [simp del]

text \<open>
  A JavaScript \<open>number\<close> is an IEEE 754 double. Every nonnegative integer below
  \<open>2\<^sup>5\<^sup>3\<close> is one; from there on only the integers with 53 significant bits
  are. \<open>round_to_double n\<close> is the double nearest to the integer \<open>n\<close>, a tie going
  to the even significand: the value that \<open>parseInt\<close> and \<open>Number(bigint)\<close>
  return for the mathematical value \<open>n\<close>. The nonnegative integers among the
  numbers are the fixed points, \<open>is_number\<close>. (Doubles end below \<open>2\<^sup>1\<^sup>0\<^sup>2\<^sup>4\<close>,
  where JavaScript continues with \<open>Infinity\<close>; the integers handled here are far
  smaller.)
\<close>

fun bit_length :: "nat \<Rightarrow> nat" where
  "bit_length n = (if n = 0 then 0 else 1 + bit_length (n div 2))"

declare bit_length.simps [simp del]

definition round_at :: "nat \<Rightarrow> nat \<Rightarrow> nat" where
  "round_at e n =
     (if 2 ^ (e - 1) < n mod 2 ^ e \<or> (n mod 2 ^ e = 2 ^ (e - 1) \<and> n div 2 ^ e mod 2 = 1)
      then n div 2 ^ e + 1 else n div 2 ^ e) * 2 ^ e"

definition round_to_double :: "nat \<Rightarrow> nat" where
  "round_to_double n = (if n < 2 ^ 53 then n else round_at (bit_length n - 53) n)"

definition is_number :: "nat \<Rightarrow> bool" where
  "is_number n \<longleftrightarrow> round_to_double n = n"

text \<open>
  \<open>`${x}`\<close> for a number \<open>x\<close> that is a nonnegative integer (ECMAScript
  \<open>Number::toString\<close>, radix 10). The digits printed are those of the decimal with the
  fewest significant digits that still denotes \<open>x\<close>, that is, that rounds to
  \<open>x\<close>; among several of that length, the one nearest to \<open>x\<close>.
  \<open>shortest_from x j\<close> looks for it among the multiples of \<open>10\<^sup>j\<close>, the two
  around \<open>x\<close>, from the largest \<open>j\<close> down; with \<open>j = 0\<close> it is \<open>x\<close> itself.
  Below \<open>2\<^sup>5\<^sup>3\<close> the result is \<open>x\<close>; \<open>2\<^sup>6\<^sup>4\<close> prints as
  \<open>18446744073709552000\<close>.
\<close>

definition lower_multiple :: "nat \<Rightarrow> nat \<Rightarrow> nat" where
  "lower_multiple x j = (x div 10 ^ j) * 10 ^ j"

definition upper_multiple :: "nat \<Rightarrow> nat \<Rightarrow> nat" where
  "upper_multiple x j = lower_multiple x j + 10 ^ j"

definition nearest :: "nat \<Rightarrow> nat \<Rightarrow> nat" where
  "nearest x j =
     (if x - lower_multiple x j < upper_multiple x j - x then lower_multiple x j
      else if upper_multiple x j - x < x - lower_multiple x j then upper_multiple x j
      else if even (x div 10 ^ j) then lower_multiple x j else upper_multiple x j)"

fun shortest_from :: "nat \<Rightarrow> nat \<Rightarrow> nat" where
  "shortest_from x j =
     (if j = 0 then x
      else if round_to_double (lower_multiple x j) = x then
        (if round_to_double (upper_multiple x j) = x then nearest x j else lower_multiple x j)
      else if round_to_double (upper_multiple x j) = x then upper_multiple x j
      else shortest_from x (j - 1))"

declare shortest_from.simps [simp del]

fun digit_count :: "nat \<Rightarrow> nat" where
  "digit_count n = (if n < 10 then 1 else 1 + digit_count (n div 10))"

declare digit_count.simps [simp del]

definition shortest_decimal :: "nat \<Rightarrow> nat" where
  "shortest_decimal x = shortest_from x (digit_count x)"

text \<open>
  The shortest decimal is printed in full when it has at most 21 digits, and in the
  exponential form \<open>d.ddde+x\<close>, without its trailing zeros, from \<open>10\<^sup>2\<^sup>1\<close> on.
\<close>

definition exponential :: "nat \<Rightarrow> string" where
  "exponential n =
     (let ds = decimal n;
          s = rev (dropWhile (\<lambda>c. c = CHR ''0'') (rev ds));
          e = decimal (length ds - 1)
      in if length s = 1 then s @ ''e+'' @ e
         else hd s # ''.'' @ tl s @ ''e+'' @ e)"

definition number_toString :: "nat \<Rightarrow> string" where
  "number_toString n =
     (if shortest_decimal n < 10 ^ 21 then decimal (shortest_decimal n)
      else exponential (shortest_decimal n))"

text \<open>
  \<open>parseInt(s, 10)\<close> on a string of decimal digits: the number nearest to the integer
  the digits denote.
\<close>

definition parseInt :: "string \<Rightarrow> nat" where
  "parseInt s = round_to_double (foldl (\<lambda>a c. 10 * a + digit_of_char c) 0 s)"

subsection \<open>Derivation paths\<close>

text \<open>
  The two regular expressions of \<open>parseDerivationPath\<close> have the shape
  \<open>^m(\/(\d+)'?){5}$\<close>; the list of flags says which levels carry the quote.
  \<open>match_levels\<close> returns the five captured groups.
\<close>

fun match_levels :: "bool list \<Rightarrow> string \<Rightarrow> string list option" where
  "match_levels [] s = (if s = [] then Some [] else None)"
| "match_levels (h # hs) s =
     (case s of
        [] \<Rightarrow> None
      | c # r \<Rightarrow>
          if c \<noteq> CHR ''/'' then None
          else
            let ds = takeWhile is_digit r; r' = dropWhile is_digit r in
            if ds = [] then None
            else if h then
              (case r' of
                 [] \<Rightarrow> None
               | q # r'' \<Rightarrow>
                   if q = CHR 0x27 then map_option ((#) ds) (match_levels hs r'') else None)
            else map_option ((#) ds) (match_levels hs r'))"

definition regex_match :: "bool list \<Rightarrow> string \<Rightarrow> string list option" where
  "regex_match hs path =
     (case path of [] \<Rightarrow> None | c # r \<Rightarrow> if c = CHR ''m'' then match_levels hs r else None)"

definition hardenedRegex :: "bool list" where
  "hardenedRegex = [True, True, True, True, True]"

definition mixedRegex :: "bool list" where
  "mixedRegex = [True, True, True, False, False]"

definition components_of_match :: "string list \<Rightarrow> DerivationPathComponents" where
  "components_of_match m =
     \<lparr>purpose = parseInt (m ! 0), coinType = parseInt (m ! 1), account = parseInt (m ! 2),
      change = parseInt (m ! 3), addressIndex = parseInt (m ! 4)\<rparr>"

definition parseDerivationPath :: "string \<Rightarrow> SeedVaultError + DerivationPathComponents" where
  "parseDerivationPath path =
     (case regex_match hardenedRegex path of
        Some m \<Rightarrow> Inr (components_of_match m)
      | None \<Rightarrow>
         (case regex_match mixedRegex path of
            Some m \<Rightarrow> Inr (components_of_match m)
          | None \<Rightarrow>
              Inl (createError INVALID_DERIVATION_PATH
                    (''Invalid derivation path format: '' @ path))))"

definition formatDerivationPath :: "DerivationPathComponents \<Rightarrow> string" where
  "formatDerivationPath components =
     ''m/'' @ number_toString (purpose components) @ [CHR 0x27] @
     ''/'' @ number_toString (coinType components) @ [CHR 0x27] @
     ''/'' @ number_toString (account components) @ [CHR 0x27] @
     ''/'' @ number_toString (change components) @ [CHR 0x27] @
     ''/'' @ number_toString (addressIndex components) @ [CHR 0x27]"

definition validateSolanaDerivationPath :: "string \<Rightarrow> bool" where
  "validateSolanaDerivationPath path =
     (case parseDerivationPath path of
        Inl e \<Rightarrow> False
      | Inr components \<Rightarrow>
          if purpose components \<noteq> 44 then False
          else if coinType components \<noteq> 501 then False
          else if account components > 2147483647 then False
          else if change components > 2147483647 then False
          else if addressIndex components > 2147483647 then False
          else True)"

subsection \<open>Key derivation\<close>

definition mnemonicToSeed :: "Libraries \<Rightarrow> string \<Rightarrow> string \<Rightarrow> SeedVaultError + bytes" where
  "mnemonicToSeed L mnemonic passphrase =
     (if \<not> bip39_validateMnemonic L mnemonic
      then Inl (createError INVALID_MNEMONIC ''Invalid mnemonic phrase'')
      else Inr (bip39_mnemonicToSeedSync L mnemonic passphrase))"

definition deriveKeypairFromSeed :: "Libraries \<Rightarrow> bytes \<Rightarrow> string \<Rightarrow> SeedVaultError + Keypair" where
  "deriveKeypairFromSeed L seed derivationPath =
     (case hd_derivePath L derivationPath seed of
        Inl m \<Rightarrow> Inl (createError INVALID_DERIVATION_PATH (''Failed to derive keypair: '' @ m))
      | Inr derivedSeed \<Rightarrow>
         (case Keypair_fromSeed L derivedSeed of
            Inl m \<Rightarrow> Inl (createError INVALID_DERIVATION_PATH (''Failed to derive keypair: '' @ m))
          | Inr kp \<Rightarrow> Inr kp))"

definition deriveKeypairFromMnemonic :: "Libraries \<Rightarrow> string \<Rightarrow> string \<Rightarrow> SeedVaultError + Keypair" where
  "deriveKeypairFromMnemonic L mnemonic derivationPath =
     (case mnemonicToSeed L mnemonic [] of
        Inl e \<Rightarrow> Inl e
      | Inr seed \<Rightarrow> deriveKeypairFromSeed L seed derivationPath)"

subsection \<open>Encryption\<close>

definition KEY_DERIVATION_ITERATIONS :: nat where
  "KEY_DERIVATION_ITERATIONS = 100000"

definition SALT_LENGTH :: nat where
  "SALT_LENGTH = 32"

definition IV_LENGTH :: nat where
  "IV_LENGTH = 16"

definition deriveEncryptionKey :: "Libraries \<Rightarrow> string \<Rightarrow> bytes \<Rightarrow> bytes" where
  "deriveEncryptionKey L password salt = pbkdf2Sync L password salt KEY_DERIVATION_ITERATIONS 32"

text \<open>
  \<open>encrypt\<close> draws \<open>salt\<close> and \<open>iv\<close> from \<open>randomBytes\<close>; here they are arguments,
  \<open>generateSecureRandom n\<close> being any \<open>n\<close> bytes.
\<close>

definition encrypt :: "Libraries \<Rightarrow> bytes \<Rightarrow> bytes \<Rightarrow> string \<Rightarrow> string \<Rightarrow> SeedVaultError + string" where
  "encrypt L salt iv plaintext password =
     (let key = deriveEncryptionKey L password salt in
      case aes256cbc_cipher L key iv (utf8_encode L plaintext) of
        Inl m \<Rightarrow> Inl (createError ENCRYPTION_FAILED (''Encryption failed: '' @ m))
      | Inr ct \<Rightarrow>
          let encrypted = hex_encode L ct;
              result = salt @ iv @ hex_decode L encrypted
          in Inr (base64_encode L result))"

definition decrypt :: "Libraries \<Rightarrow> string \<Rightarrow> string \<Rightarrow> SeedVaultError + string" where
  "decrypt L encryptedData password =
     (let buf = base64_decode L encryptedData;
          salt = take SALT_LENGTH buf;
          iv = take IV_LENGTH (drop SALT_LENGTH buf);
          encrypted = drop (SALT_LENGTH + IV_LENGTH) buf;
          key = deriveEncryptionKey L password salt
      in case aes256cbc_decipher L key iv encrypted of
           Inl m \<Rightarrow> Inl (createError DECRYPTION_FAILED (''Decryption failed: '' @ m))
         | Inr pt \<Rightarrow> Inr (utf8_decode L pt))"

definition hash :: "Libraries \<Rightarrow> string \<Rightarrow> string" where
  "hash L s = sha256_hex L (utf8_encode L s)"

definition generateWalletId :: "Libraries \<Rightarrow> bytes \<Rightarrow> string" where
  "generateWalletId L randomData = take 16 (sha256_hex L randomData)"

definition generateDeterministicWalletId :: "Libraries \<Rightarrow> string \<Rightarrow> string" where
  "generateDeterministicWalletId L publicKey = take 16 (hash L publicKey)"

section \<open>Seed Vault\<close>

subsection \<open>Wallets and storage\<close>

datatype Network = mainnet | devnet | testnet | localhost

record WalletProfile =
  name :: string
  mnemonic :: "string option"
  derivationPath :: string
  network :: Network

record Wallet =
  wallet_id :: string
  profile :: WalletProfile
  publicKey :: PublicKey
  encryptedPrivateKey :: string
  createdAt :: Date
  lastUsed :: Date

text \<open>
  The configuration the vault holds: a field reads \<open>undefined\<close> (\<open>None\<close>) or a
  value. A configuration object passed to the constructor or to \<open>initialize\<close> is
  spread over the one held, and there a key that is missing (\<open>None\<close>) keeps the
  old value, while a key that is present overrides it, also when its value is
  \<open>undefined\<close> (\<open>Some None\<close>).
\<close>

record SeedVaultConfig =
  autoLock :: "bool option"
  lockTimeout :: "nat option"

record SeedVaultConfigKeys =
  key_autoLock :: "bool option option"
  key_lockTimeout :: "nat option option"

text \<open>
  \<open>SeedVaultStorage\<close>: the wallets are a \<open>Map\<close> from id to wallet, an association
  list in insertion order. \<open>fileSystem\<close> says whether the storage is the
  \<open>FileSystemStorage\<close> (the vault tests \<open>instanceof FileSystemStorage\<close>);
  \<open>locked\<close> is the lock marker. Input and output of the file system are assumed to
  succeed.

  The memory storage keeps and returns copies of a wallet that are one level deep
  (\<open>{ ...wallet }\<close>): the \<open>profile\<close> object, the public key and the dates of a
  copy are shared with the stored wallet. The vault assigns only to the fields of the
  copy itself (\<open>wallet.lastUsed = ...\<close>) and never writes into the shared objects,
  so wallets are values here. A caller that writes into the \<open>profile\<close> of a wallet
  it was given changes the stored wallet as well; that is outside this model.
\<close>

record Storage =
  fileSystem :: bool
  wallets :: "(string \<times> Wallet) list"
  stored_config :: "SeedVaultConfig option"
  locked :: bool

definition storage_initialize :: "SeedVaultConfig \<Rightarrow> Storage \<Rightarrow> Storage" where
  "storage_initialize cfg st = st\<lparr>stored_config := Some cfg\<rparr>"

definition saveWallet :: "Wallet \<Rightarrow> Storage \<Rightarrow> Storage" where
  "saveWallet wallet st = st\<lparr>wallets := AList.update (wallet_id wallet) wallet (wallets st)\<rparr>"

definition loadWallet :: "string \<Rightarrow> Storage \<Rightarrow> Wallet option" where
  "loadWallet walletId st = map_of (wallets st) walletId"

text \<open>\<open>loadAllWallets\<close> sorts by \<open>lastUsed\<close>, newest first; the sort is stable.\<close>

definition loadAllWallets :: "Storage \<Rightarrow> Wallet list" where
  "loadAllWallets st = sort_key (\<lambda>w. - int (lastUsed w)) (map snd (wallets st))"

definition storage_deleteWallet :: "string \<Rightarrow> Storage \<Rightarrow> Storage" where
  "storage_deleteWallet walletId st = st\<lparr>wallets := AList.delete walletId (wallets st)\<rparr>"

definition storage_clear :: "Storage \<Rightarrow> Storage" where
  "storage_clear st = st\<lparr>wallets := [], stored_config := None, locked := False\<rparr>"

definition createLock :: "Storage \<Rightarrow> Storage" where
  "createLock st = st\<lparr>locked := True\<rparr>"

definition removeLock :: "Storage \<Rightarrow> Storage" where
  "removeLock st = st\<lparr>locked := False\<rparr>"

subsection \<open>The vault\<close>

text \<open>
  The fields of \<open>SeedVaultMock\<close>. \<open>lockTimeoutHandle\<close> is the pending auto-lock
  timer, represented by the time at which it fires. Emitted events have no effect on the
  vault and are left out. Every operation takes the value \<open>now\<close> of the clock and
  returns its result, or the error it throws, together with the vault it leaves behind.
\<close>

record SeedVaultMock =
  storage :: Storage
  isInitialized :: bool
  isLocked :: bool
  masterPassword :: "string option"
  config :: SeedVaultConfig
  lockTimeoutHandle :: "Date option"
  lastActivity :: Date

record SeedVaultStatus =
  status_isLocked :: bool
  walletCount :: nat
  status_lastActivity :: Date
  version :: string

record WalletExport =
  export_profile :: WalletProfile
  export_mnemonic :: string
  export_publicKey :: string
  export_createdAt :: Date

record DerivedKey =
  dk_keypair :: Keypair
  dk_publicKey :: PublicKey
  dk_derivationPath :: string

record SigningResult =
  sr_signature :: bytes
  signedTransaction :: Transaction
  sr_timestamp :: Date

record MessageSigningResult =
  msr_signature :: bytes
  msr_message :: bytes
  msr_publicKey :: PublicKey
  msr_timestamp :: Date

text \<open>
  What a \<open>try\<close> block can throw: a \<open>SeedVaultError\<close> (it has a \<open>code\<close>), or a
  plain \<open>Error\<close> with its message. \<open>rethrow\<close> is the handler
  \<open>if ('code' in error) throw error; throw createError('SIGNING_FAILED', prefix + message)\<close>.
\<close>

datatype Thrown = Coded SeedVaultError | Plain string

definition rethrow :: "string \<Rightarrow> Thrown \<Rightarrow> SeedVaultError" where
  "rethrow prefix t = (case t of Coded e \<Rightarrow> e | Plain m \<Rightarrow> createError SIGNING_FAILED (prefix @ m))"

definition thrown_message :: "Thrown \<Rightarrow> string" where
  "thrown_message t = (case t of Coded e \<Rightarrow> message e | Plain m \<Rightarrow> m)"

definition truthy_autoLock :: "SeedVaultConfig \<Rightarrow> bool" where
  "truthy_autoLock cfg \<longleftrightarrow> autoLock cfg = Some True"

definition clearLockTimeout :: "SeedVaultMock \<Rightarrow> SeedVaultMock" where
  "clearLockTimeout v = v\<lparr>lockTimeoutHandle := None\<rparr>"

definition setupAutoLock :: "Date \<Rightarrow> SeedVaultMock \<Rightarrow> SeedVaultMock" where
  "setupAutoLock now v =
     (let v1 = clearLockTimeout v in
      case lockTimeout (config v1) of
        None \<Rightarrow> v1
      | Some t \<Rightarrow>
          if truthy_autoLock (config v1) \<and> t \<noteq> 0
          then v1\<lparr>lockTimeoutHandle := Some (now + t)\<rparr> else v1)"

definition updateActivity :: "Date \<Rightarrow> SeedVaultMock \<Rightarrow> SeedVaultMock" where
  "updateActivity now v =
     (let v1 = v\<lparr>lastActivity := now\<rparr> in
      if truthy_autoLock (config v1) \<and> \<not> isLocked v1 then setupAutoLock now v1 else v1)"

definition ensureInitialized :: "SeedVaultMock \<Rightarrow> SeedVaultError option" where
  "ensureInitialized v =
     (if \<not> isInitialized v then Some (createError VAULT_LOCKED ''Seed Vault is not initialized'')
      else None)"

definition ensureUnlocked :: "SeedVaultMock \<Rightarrow> SeedVaultError option" where
  "ensureUnlocked v =
     (case ensureInitialized v of
        Some e \<Rightarrow> Some e
      | None \<Rightarrow>
          if isLocked v then Some (createError VAULT_LOCKED ''Seed Vault is locked'') else None)"

text \<open>\<open>{ ...old, ...new }\<close>\<close>

definition merge_config :: "SeedVaultConfig \<Rightarrow> SeedVaultConfigKeys \<Rightarrow> SeedVaultConfig" where
  "merge_config old new =
     \<lparr>autoLock = (case key_autoLock new of None \<Rightarrow> autoLock old | Some b \<Rightarrow> b),
      lockTimeout = (case key_lockTimeout new of None \<Rightarrow> lockTimeout old | Some t \<Rightarrow> t)\<rparr>"

text \<open>The constructor: \<open>new SeedVaultMock(config, useMemoryStorage)\<close> at time \<open>now\<close>.\<close>

definition new_SeedVaultMock :: "Date \<Rightarrow> SeedVaultConfigKeys \<Rightarrow> bool \<Rightarrow> SeedVaultMock" where
  "new_SeedVaultMock now cfg useMemoryStorage =
     \<lparr>storage = \<lparr>fileSystem = \<not> useMemoryStorage, wallets = [], stored_config = None,
                  locked = False\<rparr>,
      isInitialized = False,
      isLocked = True,
      masterPassword = None,
      config = merge_config \<lparr>autoLock = Some True, lockTimeout = Some (15 * 60 * 1000)\<rparr> cfg,
      lockTimeoutHandle = None,
      lastActivity = now\<rparr>"

definition initialize :: "Date \<Rightarrow> SeedVaultConfigKeys option \<Rightarrow> SeedVaultMock \<Rightarrow> (SeedVaultError + unit) \<times> SeedVaultMock" where
  "initialize now cfg v =
     (let v1 = (case cfg of None \<Rightarrow> v | Some c \<Rightarrow> v\<lparr>config := merge_config (config v) c\<rparr>);
          v2 = v1\<lparr>storage := storage_initialize (config v1) (storage v1)\<rparr>;
          v3 = (if fileSystem (storage v2) then v2\<lparr>isLocked := locked (storage v2)\<rparr> else v2);
          v4 = v3\<lparr>isInitialized := True\<rparr>
      in (Inr (), updateActivity now v4))"

definition lock :: "Date \<Rightarrow> SeedVaultMock \<Rightarrow> (SeedVaultError + unit) \<times> SeedVaultMock" where
  "lock now v =
     (case ensureInitialized v of
        Some e \<Rightarrow> (Inl e, v)
      | None \<Rightarrow>
          if isLocked v then (Inr (), v)
          else
            let v1 = v\<lparr>isLocked := True, masterPassword := None\<rparr>;
                v2 = (if fileSystem (storage v1) then v1\<lparr>storage := createLock (storage v1)\<rparr> else v1)
            in (Inr (), clearLockTimeout v2))"

definition unlock :: "Date \<Rightarrow> string \<Rightarrow> SeedVaultMock \<Rightarrow> (SeedVaultError + unit) \<times> SeedVaultMock" where
  "unlock now password v =
     (case ensureInitialized v of
        Some e \<Rightarrow> (Inl e, v)
      | None \<Rightarrow>
          if \<not> isLocked v then (Inr (), v)
          else if password = [] \<or> length password < 4
          then (Inl (createError INVALID_PASSWORD ''Invalid password provided''), v)
          else
            let v1 = v\<lparr>isLocked := False, masterPassword := Some password\<rparr>;
                v2 = (if fileSystem (storage v1) then v1\<lparr>storage := removeLock (storage v1)\<rparr> else v1)
            in (Inr (), setupAutoLock now (updateActivity now v2)))"

definition getStatus :: "SeedVaultMock \<Rightarrow> (SeedVaultError + SeedVaultStatus) \<times> SeedVaultMock" where
  "getStatus v =
     (case ensureInitialized v of
        Some e \<Rightarrow> (Inl e, v)
      | None \<Rightarrow>
          (Inr \<lparr>status_isLocked = isLocked v,
                walletCount = length (loadAllWallets (storage v)),
                status_lastActivity = lastActivity v,
                version = ''1.0.0''\<rparr>, v))"

text \<open>
  \<open>this.masterPassword!\<close> passes \<open>null\<close> on when no password is held; Node's
  \<open>pbkdf2Sync\<close> then throws a \<open>TypeError\<close> inside the \<open>try\<close> of
  \<open>encrypt\<close> or \<open>decrypt\<close>.
\<close>

definition null_password_message :: string where
  "null_password_message =
     ''The '' @ [CHR 0x22] @ ''password'' @ [CHR 0x22] @
     '' argument must be of type string or an instance of ArrayBuffer, Buffer, TypedArray, or DataView. Received null''"

definition encrypt_with :: "Libraries \<Rightarrow> bytes \<Rightarrow> bytes \<Rightarrow> string \<Rightarrow> string option \<Rightarrow> SeedVaultError + string" where
  "encrypt_with L salt iv plaintext pw =
     (case pw of
        None \<Rightarrow> Inl (createError ENCRYPTION_FAILED (''Encryption failed: '' @ null_password_message))
      | Some password \<Rightarrow> encrypt L salt iv plaintext password)"

definition decrypt_with :: "Libraries \<Rightarrow> string \<Rightarrow> string option \<Rightarrow> SeedVaultError + string" where
  "decrypt_with L encryptedData pw =
     (case pw of
        None \<Rightarrow> Inl (createError DECRYPTION_FAILED (''Decryption failed: '' @ null_password_message))
      | Some password \<Rightarrow> decrypt L encryptedData password)"

text \<open>\<open>JSON.parse(CryptoUtils.decrypt(wallet.encryptedPrivateKey, this.masterPassword!))\<close>\<close>

definition decryptedData_of :: "Libraries \<Rightarrow> SeedVaultMock \<Rightarrow> Wallet \<Rightarrow> Thrown + KeyMaterial" where
  "decryptedData_of L v wallet =
     (case decrypt_with L (encryptedPrivateKey wallet) (masterPassword v) of
        Inl e \<Rightarrow> Inl (Coded e)
      | Inr s \<Rightarrow> (case JSON_parse L s of Inl m \<Rightarrow> Inl (Plain m) | Inr d \<Rightarrow> Inr d))"

text \<open>
  The random inputs of wallet creation: the salt and the initialisation vector of
  \<open>encrypt\<close>, the 16 random bytes of \<open>generateWalletId\<close>, and the phrase that
  \<open>generateMnemonic()\<close> returns.
\<close>

record Randomness =
  rnd_salt :: bytes
  rnd_iv :: bytes
  rnd_walletId :: bytes
  rnd_mnemonic :: string

definition new_wallet :: "Libraries \<Rightarrow> Date \<Rightarrow> Randomness \<Rightarrow> SeedVaultMock \<Rightarrow> string \<Rightarrow> WalletProfile \<Rightarrow> string \<Rightarrow> Keypair \<Rightarrow> Thrown + Wallet" where
  "new_wallet L now rnd v wid prof mn keypair =
     (case encrypt_with L (rnd_salt rnd) (rnd_iv rnd)
             (JSON_stringify L \<lparr>km_mnemonic = mn, km_secretKey = kp_secretKey keypair\<rparr>)
             (masterPassword v) of
        Inl e \<Rightarrow> Inl (Coded e)
      | Inr blob \<Rightarrow>
          Inr \<lparr>wallet_id = wid, profile = prof, publicKey = kp_publicKey keypair,
                encryptedPrivateKey = blob, createdAt = now, lastUsed = now\<rparr>)"

definition generateWallet_try :: "Libraries \<Rightarrow> Date \<Rightarrow> Randomness \<Rightarrow> WalletProfile \<Rightarrow> SeedVaultMock \<Rightarrow> Thrown + Wallet \<times> SeedVaultMock" where
  "generateWallet_try L now rnd prof v =
     (let mn = (case mnemonic prof of
                  None \<Rightarrow> rnd_mnemonic rnd
                | Some m \<Rightarrow> if m = [] then rnd_mnemonic rnd else m) in
      if \<not> bip39_validateMnemonic L mn
      then Inl (Coded (createError INVALID_MNEMONIC ''Generated mnemonic is invalid''))
      else
        case deriveKeypairFromMnemonic L mn (derivationPath prof) of
          Inl e \<Rightarrow> Inl (Coded e)
        | Inr keypair \<Rightarrow>
           (case new_wallet L now rnd v (generateWalletId L (rnd_walletId rnd)) prof mn keypair of
              Inl t \<Rightarrow> Inl t
            | Inr wallet \<Rightarrow> Inr (wallet, v\<lparr>storage := saveWallet wallet (storage v)\<rparr>)))"

definition generateWallet :: "Libraries \<Rightarrow> Date \<Rightarrow> Randomness \<Rightarrow> WalletProfile \<Rightarrow> SeedVaultMock \<Rightarrow> (SeedVaultError + Wallet) \<times> SeedVaultMock" where
  "generateWallet L now rnd prof v =
     (case ensureUnlocked v of
        Some e \<Rightarrow> (Inl e, v)
      | None \<Rightarrow>
          (let v1 = updateActivity now v in
          case generateWallet_try L now rnd prof v1 of
            Inl t \<Rightarrow> (Inl (rethrow ''Failed to generate wallet: '' t), v1)
          | Inr (wallet, v2) \<Rightarrow> (Inr wallet, v2)))"

definition importWallet_try :: "Libraries \<Rightarrow> Date \<Rightarrow> Randomness \<Rightarrow> WalletProfile \<Rightarrow> string \<Rightarrow> SeedVaultMock \<Rightarrow> Thrown + Wallet \<times> SeedVaultMock" where
  "importWallet_try L now rnd prof mn v =
     (if \<not> bip39_validateMnemonic L mn
      then Inl (Coded (createError INVALID_MNEMONIC ''Invalid mnemonic phrase provided''))
      else
        case deriveKeypairFromMnemonic L mn (derivationPath prof) of
          Inl e \<Rightarrow> Inl (Coded e)
        | Inr keypair \<Rightarrow>
           (case find (\<lambda>w. publicKey w = kp_publicKey keypair) (loadAllWallets (storage v)) of
              Some existingWallet \<Rightarrow>
                Inl (Coded (createError WALLET_NOT_FOUND ''Wallet with this public key already exists''))
            | None \<Rightarrow>
               (case new_wallet L now rnd v
                       (generateDeterministicWalletId L (kp_publicKey keypair))
                       (prof\<lparr>mnemonic := Some mn\<rparr>) mn keypair of
                  Inl t \<Rightarrow> Inl t
                | Inr wallet \<Rightarrow> Inr (wallet, v\<lparr>storage := saveWallet wallet (storage v)\<rparr>))))"

definition importWallet :: "Libraries \<Rightarrow> Date \<Rightarrow> Randomness \<Rightarrow> WalletProfile \<Rightarrow> string \<Rightarrow> SeedVaultMock \<Rightarrow> (SeedVaultError + Wallet) \<times> SeedVaultMock" where
  "importWallet L now rnd prof mn v =
     (case ensureUnlocked v of
        Some e \<Rightarrow> (Inl e, v)
      | None \<Rightarrow>
          (let v1 = updateActivity now v in
          case importWallet_try L now rnd prof mn v1 of
            Inl t \<Rightarrow> (Inl (rethrow ''Failed to import wallet: '' t), v1)
          | Inr (wallet, v2) \<Rightarrow> (Inr wallet, v2)))"

definition exportWallet :: "Libraries \<Rightarrow> Date \<Rightarrow> string \<Rightarrow> SeedVaultMock \<Rightarrow> (SeedVaultError + WalletExport) \<times> SeedVaultMock" where
  "exportWallet L now walletId v =
     (case ensureUnlocked v of
        Some e \<Rightarrow> (Inl e, v)
      | None \<Rightarrow>
          (let v1 = updateActivity now v in
          case loadWallet walletId (storage v1) of
            None \<Rightarrow> (Inl (createError WALLET_NOT_FOUND (''Wallet '' @ walletId @ '' not found'')), v1)
          | Some wallet \<Rightarrow>
             (case decryptedData_of L v1 wallet of
                Inl t \<Rightarrow>
                  (Inl (createError DECRYPTION_FAILED (''Failed to export wallet: '' @ thrown_message t)), v1)
              | Inr decryptedData \<Rightarrow>
                  (Inr \<lparr>export_profile = profile wallet,
                        export_mnemonic = km_mnemonic decryptedData,
                        export_publicKey = publicKey wallet,
                        export_createdAt = createdAt wallet\<rparr>, v1))))"

definition listWallets :: "Date \<Rightarrow> SeedVaultMock \<Rightarrow> (SeedVaultError + Wallet list) \<times> SeedVaultMock" where
  "listWallets now v =
     (case ensureUnlocked v of
        Some e \<Rightarrow> (Inl e, v)
      | None \<Rightarrow> let v1 = updateActivity now v in (Inr (loadAllWallets (storage v1)), v1))"

definition getWallet :: "Date \<Rightarrow> string \<Rightarrow> SeedVaultMock \<Rightarrow> (SeedVaultError + Wallet option) \<times> SeedVaultMock" where
  "getWallet now walletId v =
     (case ensureUnlocked v of
        Some e \<Rightarrow> (Inl e, v)
      | None \<Rightarrow> let v1 = updateActivity now v in (Inr (loadWallet walletId (storage v1)), v1))"

definition deleteWallet :: "Date \<Rightarrow> string \<Rightarrow> SeedVaultMock \<Rightarrow> (SeedVaultError + unit) \<times> SeedVaultMock" where
  "deleteWallet now walletId v =
     (case ensureUnlocked v of
        Some e \<Rightarrow> (Inl e, v)
      | None \<Rightarrow>
          (let v1 = updateActivity now v in
          case loadWallet walletId (storage v1) of
            None \<Rightarrow> (Inl (createError WALLET_NOT_FOUND (''Wallet '' @ walletId @ '' not found'')), v1)
          | Some wallet \<Rightarrow> (Inr (), v1\<lparr>storage := storage_deleteWallet walletId (storage v1)\<rparr>)))"

definition deriveKeypair_try :: "Libraries \<Rightarrow> SeedVaultMock \<Rightarrow> Wallet \<Rightarrow> string \<Rightarrow> Thrown + DerivedKey" where
  "deriveKeypair_try L v wallet path =
     (if \<not> validateSolanaDerivationPath path
      then Inl (Coded (createError INVALID_DERIVATION_PATH (''Invalid Solana derivation path: '' @ path)))
      else
        case decryptedData_of L v wallet of
          Inl t \<Rightarrow> Inl t
        | Inr decryptedData \<Rightarrow>
           (case deriveKeypairFromMnemonic L (km_mnemonic decryptedData) path of
              Inl e \<Rightarrow> Inl (Coded e)
            | Inr keypair \<Rightarrow>
                Inr \<lparr>dk_keypair = keypair, dk_publicKey = kp_publicKey keypair,
                      dk_derivationPath = path\<rparr>))"

definition deriveKeypair :: "Libraries \<Rightarrow> Date \<Rightarrow> string \<Rightarrow> string \<Rightarrow> SeedVaultMock \<Rightarrow> (SeedVaultError + DerivedKey) \<times> SeedVaultMock" where
  "deriveKeypair L now walletId path v =
     (case ensureUnlocked v of
        Some e \<Rightarrow> (Inl e, v)
      | None \<Rightarrow>
          (let v1 = updateActivity now v in
          case loadWallet walletId (storage v1) of
            None \<Rightarrow> (Inl (createError WALLET_NOT_FOUND (''Wallet '' @ walletId @ '' not found'')), v1)
          | Some wallet \<Rightarrow>
             (case deriveKeypair_try L v1 wallet path of
                Inl t \<Rightarrow> (Inl (rethrow ''Failed to derive keypair: '' t), v1)
              | Inr dk \<Rightarrow> (Inr dk, v1))))"

definition deriveKeypairFromComponents :: "Libraries \<Rightarrow> Date \<Rightarrow> string \<Rightarrow> DerivationPathComponents \<Rightarrow> SeedVaultMock \<Rightarrow> (SeedVaultError + DerivedKey) \<times> SeedVaultMock" where
  "deriveKeypairFromComponents L now walletId components v =
     deriveKeypair L now walletId (formatDerivationPath components) v"

definition getPublicKey :: "Date \<Rightarrow> string \<Rightarrow> SeedVaultMock \<Rightarrow> (SeedVaultError + PublicKey) \<times> SeedVaultMock" where
  "getPublicKey now walletId v =
     (case ensureUnlocked v of
        Some e \<Rightarrow> (Inl e, v)
      | None \<Rightarrow>
          (let v1 = updateActivity now v in
          case loadWallet walletId (storage v1) of
            None \<Rightarrow> (Inl (createError WALLET_NOT_FOUND (''Wallet '' @ walletId @ '' not found'')), v1)
          | Some wallet \<Rightarrow> (Inr (publicKey wallet), v1)))"

subsection \<open>Signing\<close>

text \<open>
  \<open>simulateUserConfirmation\<close> emits \<open>confirmationRequired\<close> and resolves to
  \<open>true\<close> after 100 ms.
\<close>

definition simulateUserConfirmation :: bool where
  "simulateUserConfirmation = True"

definition mockMessage :: "Libraries \<Rightarrow> bytes" where
  "mockMessage L = utf8_encode L ''mock transaction message for simulation''"

definition new_Transaction :: Transaction where
  "new_Transaction = \<lparr>feePayer = None, recentBlockhash = None, instructions = [], signatures = []\<rparr>"

definition Transaction_add :: "TransactionInstruction \<Rightarrow> Transaction \<Rightarrow> Transaction" where
  "Transaction_add instruction t = t\<lparr>instructions := instructions t @ [instruction]\<rparr>"

text \<open>
  The parts of the \<open>try\<close> block of \<open>signTransaction\<close>, in the order of the
  source: the confirmation (its argument serialises the transaction, which can throw);
  decrypting the key material and deriving the keypair; the comparison with the stored
  public key; and the construction of the mock signature and the mock signed
  transaction.
\<close>

definition confirm_transaction :: "Libraries \<Rightarrow> Transaction \<Rightarrow> bool \<Rightarrow> Thrown + bool" where
  "confirm_transaction L transaction autoApprove =
     (if \<not> autoApprove
      then (case Transaction_serialize L transaction of
              Inl m \<Rightarrow> Inl (Plain m)
            | Inr serialized \<Rightarrow> Inr simulateUserConfirmation)
      else Inr True)"

definition derived_keypair :: "Libraries \<Rightarrow> SeedVaultMock \<Rightarrow> Wallet \<Rightarrow> Thrown + Keypair" where
  "derived_keypair L v wallet =
     (case decryptedData_of L v wallet of
        Inl t \<Rightarrow> Inl t
      | Inr decryptedData \<Rightarrow>
         (case deriveKeypairFromMnemonic L (km_mnemonic decryptedData)
                 (derivationPath (profile wallet)) of
            Inl e \<Rightarrow> Inl (Coded e)
          | Inr keypair \<Rightarrow> Inr keypair))"

definition verified_keypair :: "Libraries \<Rightarrow> SeedVaultMock \<Rightarrow> Wallet \<Rightarrow> Thrown + Keypair" where
  "verified_keypair L v wallet =
     (case derived_keypair L v wallet of
        Inl t \<Rightarrow> Inl t
      | Inr keypair \<Rightarrow>
          if kp_publicKey keypair \<noteq> publicKey wallet
          then Inl (Coded (createError SIGNING_FAILED
                             ''Derived keypair does not match wallet public key''))
          else Inr keypair)"

definition mock_signed :: "Libraries \<Rightarrow> Date \<Rightarrow> Keypair \<Rightarrow> Transaction \<Rightarrow> Thrown + SigningResult" where
  "mock_signed L now keypair transaction =
     (if instructions transaction = []
      then Inl (Coded (createError INVALID_TRANSACTION ''Transaction has no instructions''))
      else
        case nacl_sign_detached L (mockMessage L) (kp_secretKey keypair) of
          Inl m \<Rightarrow> Inl (Plain m)
        | Inr signature \<Rightarrow>
            let t0 = new_Transaction
                       \<lparr>feePayer := Some (kp_publicKey keypair),
                        recentBlockhash := Some ''EkSnNWid2cvwEVnVx9aBqawnmiCNiDgp3gUdkDPTKN1N''\<rparr>;
                t1 = fold Transaction_add (instructions transaction) t0;
                mockSignedTransaction =
                  t1\<lparr>signatures := [\<lparr>sig_publicKey = kp_publicKey keypair,
                                      sig_signature = Some signature\<rparr>]\<rparr>
            in Inr \<lparr>sr_signature = signature, signedTransaction = mockSignedTransaction,
                      sr_timestamp = now\<rparr>)"

definition signTransaction_try :: "Libraries \<Rightarrow> Date \<Rightarrow> SeedVaultMock \<Rightarrow> Wallet \<Rightarrow> Transaction \<Rightarrow> bool \<Rightarrow> Thrown + SigningResult \<times> SeedVaultMock" where
  "signTransaction_try L now v wallet transaction autoApprove =
     (case confirm_transaction L transaction autoApprove of
        Inl t \<Rightarrow> Inl t
      | Inr approved \<Rightarrow>
         (if \<not> approved
          then Inl (Coded (createError SIGNING_FAILED ''Transaction signing rejected by user''))
          else
           (case verified_keypair L v wallet of
              Inl t \<Rightarrow> Inl t
            | Inr keypair \<Rightarrow>
               (case mock_signed L now keypair transaction of
                  Inl t \<Rightarrow> Inl t
                | Inr result \<Rightarrow>
                    Inr (result,
                         v\<lparr>storage := saveWallet (wallet\<lparr>lastUsed := now\<rparr>) (storage v)\<rparr>)))))"

definition signTransaction :: "Libraries \<Rightarrow> Date \<Rightarrow> string \<Rightarrow> Transaction \<Rightarrow> bool \<Rightarrow> SeedVaultMock \<Rightarrow> (SeedVaultError + SigningResult) \<times> SeedVaultMock" where
  "signTransaction L now walletId transaction autoApprove v =
     (case ensureUnlocked v of
        Some e \<Rightarrow> (Inl e, v)
      | None \<Rightarrow>
          (let v1 = updateActivity now v in
          case loadWallet walletId (storage v1) of
            None \<Rightarrow> (Inl (createError WALLET_NOT_FOUND (''Wallet '' @ walletId @ '' not found'')), v1)
          | Some wallet \<Rightarrow>
             (case signTransaction_try L now v1 wallet transaction autoApprove of
                Inl t \<Rightarrow> (Inl (rethrow ''Failed to sign transaction: '' t), v1)
              | Inr (result, v2) \<Rightarrow> (Inr result, v2))))"

definition signMessage_try :: "Libraries \<Rightarrow> Date \<Rightarrow> SeedVaultMock \<Rightarrow> Wallet \<Rightarrow> bytes \<Rightarrow> bool \<Rightarrow> Thrown + MessageSigningResult \<times> SeedVaultMock" where
  "signMessage_try L now v wallet msg autoApprove =
     (let approved = (if \<not> autoApprove then simulateUserConfirmation else True) in
      if \<not> approved
      then Inl (Coded (createError SIGNING_FAILED ''Message signing rejected by user''))
      else
        case derived_keypair L v wallet of
          Inl t \<Rightarrow> Inl t
        | Inr keypair \<Rightarrow>
           (case nacl_sign_detached L msg (kp_secretKey keypair) of
              Inl m \<Rightarrow> Inl (Plain m)
            | Inr signature \<Rightarrow>
                Inr (\<lparr>msr_signature = signature, msr_message = msg,
                      msr_publicKey = kp_publicKey keypair, msr_timestamp = now\<rparr>,
                     v\<lparr>storage := saveWallet (wallet\<lparr>lastUsed := now\<rparr>) (storage v)\<rparr>)))"

definition signMessage :: "Libraries \<Rightarrow> Date \<Rightarrow> string \<Rightarrow> bytes \<Rightarrow> bool \<Rightarrow> SeedVaultMock \<Rightarrow> (SeedVaultError + MessageSigningResult) \<times> SeedVaultMock" where
  "signMessage L now walletId msg autoApprove v =
     (case ensureUnlocked v of
        Some e \<Rightarrow> (Inl e, v)
      | None \<Rightarrow>
          (let v1 = updateActivity now v in
          case loadWallet walletId (storage v1) of
            None \<Rightarrow> (Inl (createError WALLET_NOT_FOUND (''Wallet '' @ walletId @ '' not found'')), v1)
          | Some wallet \<Rightarrow>
             (case signMessage_try L now v1 wallet msg autoApprove of
                Inl t \<Rightarrow> (Inl (rethrow ''Failed to sign message: '' t), v1)
              | Inr (result, v2) \<Rightarrow> (Inr result, v2))))"

definition reset :: "SeedVaultMock \<Rightarrow> (SeedVaultError + unit) \<times> SeedVaultMock" where
  "reset v =
     (case ensureInitialized v of
        Some e \<Rightarrow> (Inl e, v)
      | None \<Rightarrow>
          (Inr (), clearLockTimeout
                     (v\<lparr>storage := storage_clear (storage v), isLocked := True,
                        masterPassword := None\<rparr>)))"

section \<open>Transaction Validator\<close>

datatype TransactionType =
    Transfer
  | Token_transfer
  | Program_interaction
  | Account_creation
  | Unknown

record TransactionMetadata =
  instructionCount :: nat
  accountCount :: nat
  estimatedFee :: nat
  programIds :: "string list"
  hasSystemProgram :: bool
  hasTokenProgram :: bool
  transferAmount :: "nat option"
  recipient :: "string option"
  tx_type :: TransactionType

record TransactionValidationResult =
  isValid :: bool
  errors :: "string list"
  warnings :: "string list"
  metadata :: TransactionMetadata

definition SYSTEM_PROGRAM_ID :: string where
  "SYSTEM_PROGRAM_ID = ''11111111111111111111111111111111''"

definition TOKEN_PROGRAM_ID :: string where
  "TOKEN_PROGRAM_ID = ''TokenkegQfeZyiNwAJbNbGKPFXCWuBvf9Ss623VQ5DA''"

definition ASSOCIATED_TOKEN_PROGRAM_ID :: string where
  "ASSOCIATED_TOKEN_PROGRAM_ID = ''ATokenGPvbdGVxr1b2hvZbsiqW5xWH25efTNsLJA8knL''"

text \<open>\<open>parts.join(sep)\<close>\<close>

fun join :: "string \<Rightarrow> string list \<Rightarrow> string" where
  "join sep [] = []"
| "join sep [x] = x"
| "join sep (x # y # ys) = x @ sep @ join sep (y # ys)"

text \<open>
  \<open>validateInstructions\<close>: the flags \<open>isSigner\<close> and \<open>isWritable\<close> are booleans by
  their type, so the two \<open>typeof\<close> tests never add an error.
\<close>

definition validateKeys :: "nat \<Rightarrow> AccountMeta list \<Rightarrow> string list" where
  "validateKeys i ks =
     concat (map (\<lambda>(j, k).
        if pubkey k = None
        then [''Instruction '' @ number_toString i @ '', key '' @ number_toString j @
              '' has no public key'']
        else []) (enumerate 0 ks))"

definition validateInstructions :: "TransactionInstruction list \<Rightarrow> string list" where
  "validateInstructions ins =
     concat (map (\<lambda>(i, instruction).
        if programId instruction = None
        then [''Instruction '' @ number_toString i @ '' has no program ID'']
        else validateKeys i (keys instruction)) (enumerate 0 ins))"

text \<open>
  Eight bytes as a little-endian unsigned integer (\<open>getBigUint64(0, true)\<close>);
  \<open>Number\<close> then gives the nearest number.
\<close>

definition le_uint :: "bytes \<Rightarrow> nat" where
  "le_uint bs = foldr (\<lambda>b acc. unat b + 256 * acc) bs 0"

definition extractSystemTransferInfo :: "TransactionInstruction \<Rightarrow> (nat \<times> string) option" where
  "extractSystemTransferInfo instruction =
     (if length (keys instruction) \<ge> 2 \<and> length (data instruction) \<ge> 4 then
        let rcpt = pubkey (keys instruction ! 1);
            amount = (if length (data instruction) \<ge> 12
                      then round_to_double (le_uint (take 8 (drop 4 (data instruction)))) else 0)
        in (case rcpt of
              None \<Rightarrow> None
            | Some r \<Rightarrow> if r \<noteq> [] \<and> amount > 0 then Some (amount, r) else None)
      else None)"

definition classifyTransactionType :: "string list \<Rightarrow> bool \<Rightarrow> bool \<Rightarrow> bool \<Rightarrow> TransactionType" where
  "classifyTransactionType pids hasSystem hasToken hasTransferAmount =
     (if hasToken then Token_transfer
      else if hasSystem \<and> hasTransferAmount \<and> length pids = 1 then Transfer
      else if hasSystem \<and> \<not> hasTransferAmount \<and> length pids = 1 then Account_creation
      else if length pids > 1 \<or> (\<not> hasSystem \<and> \<not> hasToken) then Program_interaction
      else Unknown)"

definition estimateTransactionFee :: "Transaction \<Rightarrow> nat" where
  "estimateTransactionFee transaction = 5000 + length (instructions transaction) * 1000"

text \<open>
  The loop of \<open>extractTransactionMetadata\<close>; its variables are the fields of the
  metadata under construction. \<open>programIds\<close> is a \<open>Set\<close>: insertion order, no
  duplicates.
\<close>

definition metadata_step :: "TransactionInstruction \<Rightarrow> TransactionMetadata \<Rightarrow> TransactionMetadata" where
  "metadata_step instruction m =
     (case programId instruction of
        None \<Rightarrow> m
      | Some pid \<Rightarrow>
          let m1 = m\<lparr>programIds := (if pid \<in> set (programIds m) then programIds m
                                     else programIds m @ [pid])\<rparr>;
              m2 = (if pid = SYSTEM_PROGRAM_ID then
                      (case extractSystemTransferInfo instruction of
                         None \<Rightarrow> m1\<lparr>hasSystemProgram := True\<rparr>
                       | Some (amount, rcpt) \<Rightarrow>
                           m1\<lparr>hasSystemProgram := True, transferAmount := Some amount,
                              recipient := Some rcpt\<rparr>)
                    else m1);
              m3 = (if pid = TOKEN_PROGRAM_ID \<or> pid = ASSOCIATED_TOKEN_PROGRAM_ID
                    then m2\<lparr>hasTokenProgram := True\<rparr> else m2)
          in m3\<lparr>accountCount := accountCount m3 + length (keys instruction)\<rparr>)"

definition extractTransactionMetadata :: "Transaction \<Rightarrow> TransactionMetadata" where
  "extractTransactionMetadata transaction =
     (let m0 = \<lparr>instructionCount = length (instructions transaction), accountCount = 0,
                estimatedFee = estimateTransactionFee transaction, programIds = [],
                hasSystemProgram = False, hasTokenProgram = False, transferAmount = None,
                recipient = None, tx_type = Unknown\<rparr>;
          m = fold metadata_step (instructions transaction) m0
      in m\<lparr>tx_type := classifyTransactionType (programIds m) (hasSystemProgram m)
                         (hasTokenProgram m) (transferAmount m \<noteq> None)\<rparr>)"

definition validateByType :: "TransactionMetadata \<Rightarrow> string list" where
  "validateByType m =
     (case tx_type m of
        Transfer \<Rightarrow>
          (if transferAmount m = None \<or> transferAmount m = Some 0
           then [''Transfer transaction has invalid amount''] else []) @
          (if recipient m = None \<or> recipient m = Some []
           then [''Transfer transaction has no recipient''] else [])
      | Token_transfer \<Rightarrow>
          (if \<not> hasTokenProgram m then [''Token transfer transaction missing token program'']
           else [])
      | Account_creation \<Rightarrow>
          (if instructionCount m = 0 then [''Account creation transaction has no instructions'']
           else [])
      | Program_interaction \<Rightarrow>
          (if programIds m = [] then [''Program interaction transaction has no program IDs'']
           else [])
      | Unknown \<Rightarrow> [])"

text \<open>
  \<open>validateTransaction\<close> on a \<open>Transaction\<close> object (the test for \<open>null\<close> is
  excluded by the type).
\<close>

definition validateTransaction :: "Transaction \<Rightarrow> TransactionValidationResult" where
  "validateTransaction transaction =
     (let m = extractTransactionMetadata transaction;
          errs = (if instructions transaction = [] then [''Transaction has no instructions''] else []) @
                 (if feePayer transaction = None then [''Transaction has no fee payer''] else []) @
                 validateInstructions (instructions transaction) @
                 validateByType m;
          warns = (if recentBlockhash transaction = None \<or> recentBlockhash transaction = Some []
                   then [''Transaction has no recent blockhash (may be set later)''] else [])
      in \<lparr>isValid = (errs = []), errors = errs, warnings = warns, metadata = m\<rparr>)"

definition requiresUserApproval :: "TransactionMetadata \<Rightarrow> bool" where
  "requiresUserApproval m =
     (if (case transferAmount m of None \<Rightarrow> False | Some a \<Rightarrow> a > 1000000000) then True
      else if tx_type m = Program_interaction \<or> tx_type m = Unknown then True
      else if tx_type m = Token_transfer then True
      else False)"

section \<open>Transaction UI\<close>

record TransactionApprovalRequest =
  req_id :: string
  req_walletId :: string
  req_dAppIdentifier :: string
  req_transaction :: Transaction
  req_metadata :: TransactionMetadata
  req_timestamp :: Date
  req_autoApprove :: "bool option"

record TransactionApprovalResult =
  approved :: bool
  reason :: "string option"
  result_timestamp :: Date

record TransactionUIConfig =
  autoApproveTransfers :: bool
  autoApproveLimit :: nat
  showDetailedInfo :: bool
  confirmationDelay :: nat

record TransactionUIMock =
  ui_config :: TransactionUIConfig
  pendingRequests :: "(string \<times> TransactionApprovalRequest) list"

text \<open>
  What happens while a request waits: \<open>approveRequest\<close> or \<open>rejectRequest\<close> is called
  for it from outside, or the timer fires and \<open>simulateUserDecision\<close> draws
  \<open>Math.random()\<close>. Of the number drawn only its place relative to 0.8 and 0.95 is
  used.
\<close>

datatype RandomDraw = Below_0_8 | Below_0_95 | At_least_0_95

datatype UserAction = ManualApprove | ManualReject "string option" | TimerFires RandomDraw

definition shouldAutoApprove :: "TransactionUIConfig \<Rightarrow> TransactionApprovalRequest \<Rightarrow> bool" where
  "shouldAutoApprove cfg request =
     (if req_autoApprove request = Some True then True
      else if autoApproveTransfers cfg \<and> tx_type (req_metadata request) = Transfer \<and>
              (case transferAmount (req_metadata request) of
                 None \<Rightarrow> False
               | Some a \<Rightarrow> a \<noteq> 0 \<and> a \<le> autoApproveLimit cfg) then True
      else if requiresUserApproval (req_metadata request) then False
      else False)"

definition simulateUserDecision :: "RandomDraw \<Rightarrow> TransactionApprovalRequest \<Rightarrow> bool" where
  "simulateUserDecision draw request =
     (if requiresUserApproval (req_metadata request) then draw = Below_0_8
      else draw = Below_0_8 \<or> draw = Below_0_95)"

definition simulateUserInteraction :: "Date \<Rightarrow> UserAction \<Rightarrow> TransactionApprovalRequest \<Rightarrow> TransactionApprovalResult" where
  "simulateUserInteraction now action request =
     (case action of
        ManualApprove \<Rightarrow>
          \<lparr>approved = True, reason = Some ''Manually approved'', result_timestamp = now\<rparr>
      | ManualReject r \<Rightarrow>
          \<lparr>approved = False,
           reason = Some (case r of None \<Rightarrow> ''Manually rejected''
                          | Some s \<Rightarrow> if s = [] then ''Manually rejected'' else s),
           result_timestamp = now\<rparr>
      | TimerFires draw \<Rightarrow>
          let ok = simulateUserDecision draw request in
          \<lparr>approved = ok, reason = Some (if ok then ''User approved'' else ''User rejected''),
           result_timestamp = now\<rparr>)"

definition requestApproval :: "Date \<Rightarrow> UserAction \<Rightarrow> TransactionApprovalRequest \<Rightarrow> TransactionUIMock \<Rightarrow> TransactionApprovalResult \<times> TransactionUIMock" where
  "requestApproval now action request ui =
     (let ui1 = ui\<lparr>pendingRequests := AList.update (req_id request) request (pendingRequests ui)\<rparr>;
          result = (if shouldAutoApprove (ui_config ui1) request
                    then \<lparr>approved = True, reason = Some ''Auto-approved'', result_timestamp = now\<rparr>
                    else simulateUserInteraction now action request)
      in (result, ui1\<lparr>pendingRequests := AList.delete (req_id request) (pendingRequests ui1)\<rparr>))"

definition generateRequestId :: "Date \<Rightarrow> string \<Rightarrow> string" where
  "generateRequestId now rnd = ''tx_approval_'' @ number_toString now @ ''_'' @ rnd"

definition createApprovalRequest :: "Date \<Rightarrow> string \<Rightarrow> string \<Rightarrow> string \<Rightarrow> Transaction \<Rightarrow> bool option \<Rightarrow> string + TransactionApprovalRequest" where
  "createApprovalRequest now rnd walletId dApp transaction autoApprove =
     (let validation = validateTransaction transaction in
      if \<not> isValid validation
      then Inl (''Invalid transaction: '' @ join '', '' (errors validation))
      else Inr \<lparr>req_id = generateRequestId now rnd, req_walletId = walletId,
                req_dAppIdentifier = dApp, req_transaction = transaction,
                req_metadata = metadata validation, req_timestamp = now,
                req_autoApprove = autoApprove\<rparr>)"

section \<open>Transaction Tracker\<close>

datatype TransactionStatus =
    Pending
  | Approved
  | Rejected
  | Signing
  | Signed
  | Signing_failed
  | Submitted
  | Confirmed
  | Failed
  | Expired

definition status_name :: "TransactionStatus \<Rightarrow> string" where
  "status_name s =
     (case s of
        Pending \<Rightarrow> ''pending'' | Approved \<Rightarrow> ''approved'' | Rejected \<Rightarrow> ''rejected''
      | Signing \<Rightarrow> ''signing'' | Signed \<Rightarrow> ''signed'' | Signing_failed \<Rightarrow> ''signing_failed''
      | Submitted \<Rightarrow> ''submitted'' | Confirmed \<Rightarrow> ''confirmed'' | Failed \<Rightarrow> ''failed''
      | Expired \<Rightarrow> ''expired'')"

datatype EventType =
    Status_change
  | Approval_requested
  | Approval_result
  | Signing_started
  | Signing_completed
  | Error_event

record TransactionEvent =
  ev_type :: EventType
  ev_timestamp :: Date
  ev_data :: "(string \<times> string option) list"
  ev_message :: "string option"

record TransactionLogEntry =
  tx_id :: string
  tx_walletId :: string
  tx_dAppIdentifier :: string
  tx_transaction :: Transaction
  tx_metadata :: TransactionMetadata
  status :: TransactionStatus
  tx_signature :: "string option"
  tx_error :: "string option"
  tx_createdAt :: Date
  updatedAt :: Date
  approvedAt :: "Date option"
  signedAt :: "Date option"
  submittedAt :: "Date option"
  confirmedAt :: "Date option"
  events :: "TransactionEvent list"

record TransactionTracker =
  transactions :: "(string \<times> TransactionLogEntry) list"
  maxEntries :: nat
  retentionPeriod :: nat


definition createTransaction :: "Date \<Rightarrow> string \<Rightarrow> string \<Rightarrow> string \<Rightarrow> Transaction \<Rightarrow> TransactionMetadata \<Rightarrow> TransactionTracker \<Rightarrow> TransactionLogEntry \<times> TransactionTracker" where
  "createTransaction now tid walletId dApp transaction m tr =
     (let entry = \<lparr>tx_id = tid, tx_walletId = walletId, tx_dAppIdentifier = dApp,
                    tx_transaction = transaction, tx_metadata = m, status = Pending,
                    tx_signature = None, tx_error = None, tx_createdAt = now, updatedAt = now,
                    approvedAt = None, signedAt = None, submittedAt = None, confirmedAt = None,
                    events = [\<lparr>ev_type = Status_change, ev_timestamp = now,
                                ev_data = [(''status'', Some ''pending'')],
                                ev_message = Some ''Transaction created''\<rparr>]\<rparr>
      in (entry, tr\<lparr>transactions := AList.update tid entry (transactions tr)\<rparr>))"

definition not_found :: "string \<Rightarrow> string" where
  "not_found tid = ''Transaction '' @ tid @ '' not found''"

text \<open>What \<open>updateStatus\<close> does to the entry it finds.\<close>

definition status_updated :: "Date \<Rightarrow> TransactionStatus \<Rightarrow> (string \<times> string option) list \<Rightarrow> TransactionLogEntry \<Rightarrow> TransactionLogEntry" where
  "status_updated now s extra entry =
     (let previousStatus = status entry;
          e1 = entry\<lparr>status := s, updatedAt := now\<rparr>;
          e2 = (case s of
                  Approved \<Rightarrow> e1\<lparr>approvedAt := Some now\<rparr>
                | Signed \<Rightarrow> e1\<lparr>signedAt := Some now\<rparr>
                | Submitted \<Rightarrow> e1\<lparr>submittedAt := Some now\<rparr>
                | Confirmed \<Rightarrow> e1\<lparr>confirmedAt := Some now\<rparr>
                | _ \<Rightarrow> e1)
      in e2\<lparr>events := events e2 @
              [\<lparr>ev_type = Status_change, ev_timestamp = now,
                ev_data = AList.merge
                            [(''previousStatus'', Some (status_name previousStatus)),
                             (''newStatus'', Some (status_name s))] extra,
                ev_message = Some (''Status changed from '' @ status_name previousStatus @
                                   '' to '' @ status_name s)\<rparr>]\<rparr>)"

definition updateStatus :: "Date \<Rightarrow> string \<Rightarrow> TransactionStatus \<Rightarrow> (string \<times> string option) list \<Rightarrow> TransactionTracker \<Rightarrow> string + TransactionTracker" where
  "updateStatus now tid s extra tr =
     (case map_of (transactions tr) tid of
        None \<Rightarrow> Inl (not_found tid)
      | Some entry \<Rightarrow>
          Inr (tr\<lparr>transactions :=
                    AList.update tid (status_updated now s extra entry) (transactions tr)\<rparr>))"

text \<open>What \<open>addSignature\<close> and \<open>addError\<close> do to the entry they find.\<close>

definition signature_added :: "Date \<Rightarrow> string \<Rightarrow> TransactionLogEntry \<Rightarrow> TransactionLogEntry" where
  "signature_added now sig entry =
     (let e1 = entry\<lparr>tx_signature := Some sig, updatedAt := now\<rparr>
      in e1\<lparr>events := events e1 @
              [\<lparr>ev_type = Signing_completed, ev_timestamp = now,
                ev_data = [(''signature'', Some sig)],
                ev_message = Some ''Transaction signed successfully''\<rparr>]\<rparr>)"

definition addSignature :: "Date \<Rightarrow> string \<Rightarrow> string \<Rightarrow> TransactionTracker \<Rightarrow> string + TransactionTracker" where
  "addSignature now tid sig tr =
     (case map_of (transactions tr) tid of
        None \<Rightarrow> Inl (not_found tid)
      | Some entry \<Rightarrow>
          Inr (tr\<lparr>transactions :=
                    AList.update tid (signature_added now sig entry) (transactions tr)\<rparr>))"

definition error_added :: "Date \<Rightarrow> string \<Rightarrow> TransactionLogEntry \<Rightarrow> TransactionLogEntry" where
  "error_added now err entry =
     (let e1 = entry\<lparr>tx_error := Some err, updatedAt := now\<rparr>
      in e1\<lparr>events := events e1 @
              [\<lparr>ev_type = Error_event, ev_timestamp = now,
                ev_data = [(''error'', Some err)],
                ev_message = Some err\<rparr>]\<rparr>)"

definition addError :: "Date \<Rightarrow> string \<Rightarrow> string \<Rightarrow> TransactionTracker \<Rightarrow> string + TransactionTracker" where
  "addError now tid err tr =
     (case map_of (transactions tr) tid of
        None \<Rightarrow> Inl (not_found tid)
      | Some entry \<Rightarrow>
          Inr (tr\<lparr>transactions :=
                    AList.update tid (error_added now err entry) (transactions tr)\<rparr>))"



section \<open>Wallet-Adapter Protocol Service\<close>

datatype ConnectionState = Connected | Disconnected | Reconnecting

record MWASession =
  sessionId :: string
  dAppIdentifier :: string
  authorizedPublicKey :: "PublicKey option"
  connectionState :: ConnectionState
  permissions :: "string list"
  authorizedAt :: "Date option"
  session_lastActivity :: Date

record SignResult =
  res_signedTransaction :: "Transaction option"
  res_signature :: "bytes option"
  res_error :: "string option"

text \<open>
  The fields of \<open>MWAServiceImpl\<close>. A session timer is represented by the time at which
  it fires. Emitted events are left out: nothing in the service listens to them.
\<close>

record MWAServiceImpl =
  sessions :: "(string \<times> MWASession) list"
  seedVault :: SeedVaultMock
  sessionTimeout :: nat
  sessionTimers :: "(string \<times> Date) list"
  transactionUI :: TransactionUIMock
  transactionTracker :: TransactionTracker

text \<open>
  What the outside world supplies while one transaction of a batch is processed: the
  clock, the random suffixes of the transaction id and of the request id, and what
  happens to the approval request.
\<close>

record ItemEnv =
  item_now :: Date
  item_random :: string
  request_random :: string
  user_action :: UserAction

definition error_result :: "string \<Rightarrow> SignResult" where
  "error_result m = \<lparr>res_signedTransaction = None, res_signature = None, res_error = Some m\<rparr>"

definition setupSessionTimeout :: "Date \<Rightarrow> string \<Rightarrow> MWAServiceImpl \<Rightarrow> MWAServiceImpl" where
  "setupSessionTimeout now sid svc =
     svc\<lparr>sessionTimers := AList.update sid (now + sessionTimeout svc) (sessionTimers svc)\<rparr>"

definition updateSessionActivity :: "Date \<Rightarrow> string \<Rightarrow> MWAServiceImpl \<Rightarrow> MWAServiceImpl" where
  "updateSessionActivity now sid svc =
     (case map_of (sessions svc) sid of
        None \<Rightarrow> svc
      | Some session \<Rightarrow>
          setupSessionTimeout now sid
            (svc\<lparr>sessions := AList.update sid (session\<lparr>session_lastActivity := now\<rparr>)
                                (sessions svc)\<rparr>))"

definition transactionId_of :: "Date \<Rightarrow> nat \<Rightarrow> string \<Rightarrow> string" where
  "transactionId_of now i rnd = ''tx_'' @ number_toString now @ ''_'' @ number_toString i @ ''_'' @ rnd"

text \<open>
  \<open>track f\<close> applies an operation of the tracker to the tracker of the service.
\<close>

definition track :: "(TransactionTracker \<Rightarrow> string + TransactionTracker) \<Rightarrow> MWAServiceImpl \<Rightarrow> string + MWAServiceImpl" where
  "track f svc =
     (case f (transactionTracker svc) of
        Inl m \<Rightarrow> Inl m
      | Inr tr \<Rightarrow> Inr (svc\<lparr>transactionTracker := tr\<rparr>))"

text \<open>
  The body of the inner \<open>try\<close> of \<open>signTransactions\<close> for the transaction at index
  \<open>i\<close>, in three parts: steps 4 to 6 (after the approval), steps 2 and 3 (tracker entry
  and approval), step 1 (validation). \<open>Inr r\<close> is the result pushed; \<open>Inl m\<close> is an
  exception with message \<open>m\<close>, thrown in the service as it then is.
\<close>

definition sign_approved :: "Libraries \<Rightarrow> Date \<Rightarrow> string \<Rightarrow> Wallet \<Rightarrow> Transaction \<Rightarrow> MWAServiceImpl \<Rightarrow> (string + SignResult) \<times> MWAServiceImpl" where
  "sign_approved L now transactionId authorizedWallet transaction svc =
     (case track (updateStatus now transactionId Approved []) svc of
        Inl m \<Rightarrow> (Inl m, svc)
      | Inr s1 \<Rightarrow>
         (case track (updateStatus now transactionId Signing []) s1 of
            Inl m \<Rightarrow> (Inl m, s1)
          | Inr s2 \<Rightarrow>
             (case signTransaction L now (wallet_id authorizedWallet) transaction True (seedVault s2) of
                (Inl e, v1) \<Rightarrow> (Inl (message e), s2\<lparr>seedVault := v1\<rparr>)
              | (Inr signingResult, v1) \<Rightarrow>
                 (case track (updateStatus now transactionId Signed []) (s2\<lparr>seedVault := v1\<rparr>) of
                    Inl m \<Rightarrow> (Inl m, s2\<lparr>seedVault := v1\<rparr>)
                  | Inr s4 \<Rightarrow>
                     (case track (addSignature now transactionId
                                    (hex_encode L (sr_signature signingResult))) s4 of
                        Inl m \<Rightarrow> (Inl m, s4)
                      | Inr s5 \<Rightarrow>
                          (Inr \<lparr>res_signedTransaction = Some (signedTransaction signingResult),
                                 res_signature = Some (sr_signature signingResult),
                                 res_error = None\<rparr>, s5))))))"

definition sign_valid :: "Libraries \<Rightarrow> ItemEnv \<Rightarrow> MWASession \<Rightarrow> Wallet \<Rightarrow> string \<Rightarrow> Transaction \<Rightarrow> TransactionValidationResult \<Rightarrow> MWAServiceImpl \<Rightarrow> (string + SignResult) \<times> MWAServiceImpl" where
  "sign_valid L env session authorizedWallet transactionId transaction validation svc =
     (let now = item_now env;
          s1 = svc\<lparr>transactionTracker :=
                   snd (createTransaction now transactionId (wallet_id authorizedWallet)
                          (dAppIdentifier session) transaction (metadata validation)
                          (transactionTracker svc))\<rparr>
      in
      case createApprovalRequest now (request_random env) (wallet_id authorizedWallet)
             (dAppIdentifier session) transaction (Some False) of
        Inl m \<Rightarrow> (Inl m, s1)
      | Inr approvalRequest \<Rightarrow>
         (case track (updateStatus now transactionId Pending []) s1 of
            Inl m \<Rightarrow> (Inl m, s1)
          | Inr s2 \<Rightarrow>
             (let answer = requestApproval now (user_action env) approvalRequest (transactionUI s2);
                  approvalResult = fst answer;
                  s3 = s2\<lparr>transactionUI := snd answer\<rparr>
              in
              if \<not> approved approvalResult then
                (case track (updateStatus now transactionId Rejected
                               [(''reason'', reason approvalResult)]) s3 of
                   Inl m \<Rightarrow> (Inl m, s3)
                 | Inr s4 \<Rightarrow>
                     (Inr (error_result (''Transaction rejected: '' @
                             (case reason approvalResult of
                                None \<Rightarrow> ''User denied''
                              | Some r \<Rightarrow> if r = [] then ''User denied'' else r))), s4))
              else sign_approved L now transactionId authorizedWallet transaction s3)))"

definition sign_item_try :: "Libraries \<Rightarrow> ItemEnv \<Rightarrow> MWASession \<Rightarrow> Wallet \<Rightarrow> nat \<Rightarrow> Transaction \<Rightarrow> MWAServiceImpl \<Rightarrow> (string + SignResult) \<times> MWAServiceImpl" where
  "sign_item_try L env session authorizedWallet i transaction svc =
     (let transactionId = transactionId_of (item_now env) i (item_random env);
          validation = validateTransaction transaction
      in
      if \<not> isValid validation
      then (Inr (error_result (''Transaction validation failed: '' @
                               join '', '' (errors validation))), svc)
      else sign_valid L env session authorizedWallet transactionId transaction validation svc)"

text \<open>
  The \<open>catch\<close> of the inner \<open>try\<close>, for an exception with message \<open>m\<close>. An
  exception thrown in here (\<open>Inl\<close>) leaves the loop and reaches the outer \<open>catch\<close>.
\<close>

definition mark_signing_failed :: "Date \<Rightarrow> string \<Rightarrow> string \<Rightarrow> TransactionTracker \<Rightarrow> string + TransactionTracker" where
  "mark_signing_failed now transactionId m tr =
     (case updateStatus now transactionId Signing_failed [] tr of
        Inl x \<Rightarrow> Inl x
      | Inr tr1 \<Rightarrow> addError now transactionId m tr1)"

definition sign_item_catch :: "ItemEnv \<Rightarrow> MWASession \<Rightarrow> Wallet \<Rightarrow> nat \<Rightarrow> Transaction \<Rightarrow> string \<Rightarrow> MWAServiceImpl \<Rightarrow> (string + SignResult) \<times> MWAServiceImpl" where
  "sign_item_catch env session authorizedWallet i transaction m svc =
     (let now = item_now env;
          transactionId = transactionId_of now i (item_random env);
          validation = validateTransaction transaction;
          pushed = Inr (error_result (''Failed to sign transaction: '' @ m))
      in
      if isValid validation then
        (case mark_signing_failed now transactionId m (transactionTracker svc) of
           Inr tr1 \<Rightarrow> (pushed, svc\<lparr>transactionTracker := tr1\<rparr>)
         | Inl trackingError \<Rightarrow>
             let tr0 = (case updateStatus now transactionId Signing_failed []
                               (transactionTracker svc) of
                          Inl x \<Rightarrow> transactionTracker svc | Inr t \<Rightarrow> t);
                 tr1 = snd (createTransaction now transactionId (wallet_id authorizedWallet)
                              (dAppIdentifier session) transaction (metadata validation) tr0)
             in (case mark_signing_failed now transactionId m tr1 of
                   Inl x \<Rightarrow> (Inl x, svc\<lparr>transactionTracker := tr1\<rparr>)
                 | Inr tr2 \<Rightarrow> (pushed, svc\<lparr>transactionTracker := tr2\<rparr>)))
      else (pushed, svc))"

definition sign_item :: "Libraries \<Rightarrow> ItemEnv \<Rightarrow> MWASession \<Rightarrow> Wallet \<Rightarrow> nat \<Rightarrow> Transaction \<Rightarrow> MWAServiceImpl \<Rightarrow> (string + SignResult) \<times> MWAServiceImpl" where
  "sign_item L env session authorizedWallet i transaction svc =
     (case sign_item_try L env session authorizedWallet i transaction svc of
        (Inr r, svc1) \<Rightarrow> (Inr r, svc1)
      | (Inl m, svc1) \<Rightarrow> sign_item_catch env session authorizedWallet i transaction m svc1)"

text \<open>
  The \<open>for\<close> loop over the batch, from index \<open>i\<close> on, with the results pushed so
  far.
\<close>

fun sign_loop :: "Libraries \<Rightarrow> (nat \<Rightarrow> ItemEnv) \<Rightarrow> MWASession \<Rightarrow> Wallet \<Rightarrow> nat \<Rightarrow> Transaction list \<Rightarrow> SignResult list \<Rightarrow> MWAServiceImpl \<Rightarrow> (string + SignResult list) \<times> MWAServiceImpl" where
  "sign_loop L env session w i [] results svc = (Inr results, svc)"
| "sign_loop L env session w i (transaction # rest) results svc =
     (case sign_item L (env i) session w i transaction svc of
        (Inl m, svc1) \<Rightarrow> (Inl m, svc1)
      | (Inr r, svc1) \<Rightarrow> sign_loop L env session w (Suc i) rest (results @ [r]) svc1)"

text \<open>
  \<open>signTransactions(session, transactions)\<close>, called at time \<open>now\<close>. \<open>Inl m\<close> is
  the \<open>Error\<close> with message \<open>m\<close> that the call throws.
\<close>

definition signTransactions :: "Libraries \<Rightarrow> Date \<Rightarrow> (nat \<Rightarrow> ItemEnv) \<Rightarrow> MWASession \<Rightarrow> Transaction list \<Rightarrow> MWAServiceImpl \<Rightarrow> (string + SignResult list) \<times> MWAServiceImpl" where
  "signTransactions L now env session txs svc =
     (if map_of (sessions svc) (sessionId session) = None
      then (Inl ''Invalid session: session not found'', svc)
      else if connectionState session \<noteq> Connected
      then (Inl ''Invalid session: not connected'', svc)
      else
        case authorizedPublicKey session of
          None \<Rightarrow> (Inl ''Session not authorized'', svc)
        | Some authorizedKey \<Rightarrow>
           (let svc1 = updateSessionActivity now (sessionId session) svc;
                failed = (\<lambda>m. Inr (map (\<lambda>t. error_result (''Failed to sign transactions: '' @ m)) txs))
            in
            if txs = [] then (Inl ''No transactions provided'', svc1)
            else
              (case listWallets now (seedVault svc1) of
                 (Inl e, v1) \<Rightarrow> (failed (message e), svc1\<lparr>seedVault := v1\<rparr>)
               | (Inr ws, v1) \<Rightarrow>
                  (case find (\<lambda>w. publicKey w = authorizedKey) ws of
                     None \<Rightarrow> (failed ''Authorized wallet not found'', svc1\<lparr>seedVault := v1\<rparr>)
                   | Some authorizedWallet \<Rightarrow>
                      (case sign_loop L env session authorizedWallet 0 txs []
                              (svc1\<lparr>seedVault := v1\<rparr>) of
                         (Inl m, svc2) \<Rightarrow> (failed m, svc2)
                       | (Inr results, svc2) \<Rightarrow> (Inr results, svc2))))))"

section \<open>What a batch returns\<close>

text \<open>
  The result that \<open>signTransactions\<close> is to give for one transaction of a batch,
  written out from the three ways in which an item fails (validation, rejection,
  signing) and the one in which it succeeds. It depends on the transaction, on what
  the outside world supplies for this item, on the configuration \<open>cfg\<close> of the
  approval UI, and on the vault \<open>v\<close> and the wallet \<open>w\<close> that signs; it does not
  depend on the other items of the batch.
\<close>

definition item_outcome :: "Libraries \<Rightarrow> ItemEnv \<Rightarrow> TransactionUIConfig \<Rightarrow> SeedVaultMock \<Rightarrow> Wallet \<Rightarrow> MWASession \<Rightarrow> Transaction \<Rightarrow> SignResult" where
  "item_outcome L env cfg v w session transaction =
     (let now = item_now env; validation = validateTransaction transaction in
      if \<not> isValid validation
      then error_result (''Transaction validation failed: '' @ join '', '' (errors validation))
      else
        let request = \<lparr>req_id = generateRequestId now (request_random env),
                       req_walletId = wallet_id w, req_dAppIdentifier = dAppIdentifier session,
                       req_transaction = transaction, req_metadata = metadata validation,
                       req_timestamp = now, req_autoApprove = Some False\<rparr>;
            answer = fst (requestApproval now (user_action env) request
                            \<lparr>ui_config = cfg, pendingRequests = []\<rparr>)
        in
        if \<not> approved answer
        then error_result (''Transaction rejected: '' @
               (case reason answer of
                  None \<Rightarrow> ''User denied''
                | Some r \<Rightarrow> if r = [] then ''User denied'' else r))
        else
          (case fst (signTransaction L now (wallet_id w) transaction True v) of
             Inl e \<Rightarrow> error_result (''Failed to sign transaction: '' @ message e)
           | Inr signingResult \<Rightarrow>
               \<lparr>res_signedTransaction = Some (signedTransaction signingResult),
                res_signature = Some (sr_signature signingResult),
                res_error = None\<rparr>))"

text \<open>
  The results of a batch, in the order of the input: when the vault cannot list its
  wallets, or holds none with the authorized key, every entry is that error;
  otherwise the entry at index \<open>i\<close> is the outcome of the transaction at index \<open>i\<close>.
\<close>

definition batch_results :: "Libraries \<Rightarrow> Date \<Rightarrow> (nat \<Rightarrow> ItemEnv) \<Rightarrow> MWASession \<Rightarrow> Transaction list \<Rightarrow> MWAServiceImpl \<Rightarrow> SignResult list" where
  "batch_results L now env session txs svc =
     (case fst (listWallets now (seedVault svc)) of
        Inl e \<Rightarrow> map (\<lambda>t. error_result (''Failed to sign transactions: '' @ message e)) txs
      | Inr ws \<Rightarrow>
         (case find (\<lambda>w. Some (publicKey w) = authorizedPublicKey session) ws of
            None \<Rightarrow>
              map (\<lambda>t. error_result ''Failed to sign transactions: Authorized wallet not found'') txs
          | Some w \<Rightarrow>
              map (\<lambda>(i, t). item_outcome L (env i) (ui_config (transactionUI svc)) (seedVault svc)
                              w session t)
                  (enumerate 0 txs)))"

text \<open>The conditions under which \<open>signTransactions\<close> accepts a call.\<close>

definition accepted_call :: "MWAServiceImpl \<Rightarrow> MWASession \<Rightarrow> Transaction list \<Rightarrow> bool" where
  "accepted_call svc session txs \<longleftrightarrow>
     map_of (sessions svc) (sessionId session) \<noteq> None \<and>
     connectionState session = Connected \<and>
     authorizedPublicKey session \<noteq> None \<and>
     txs \<noteq> []"

text \<open>
  What signing with the wallet \<open>wid\<close> reads of a vault: whether it is initialised and
  unlocked, the password it holds, and of the stored wallet the encrypted key, the
  profile and the public key. Signing changes only the \<open>lastUsed\<close> date of the wallet
  and the activity of the vault.
\<close>

definition same_key_material :: "Wallet \<Rightarrow> Wallet \<Rightarrow> bool" where
  "same_key_material a b \<longleftrightarrow>
     encryptedPrivateKey a = encryptedPrivateKey b \<and> profile a = profile b \<and>
     publicKey a = publicKey b"

definition same_signing_state :: "string \<Rightarrow> SeedVaultMock \<Rightarrow> SeedVaultMock \<Rightarrow> bool" where
  "same_signing_state wid v v' \<longleftrightarrow>
     isInitialized v = isInitialized v' \<and> isLocked v = isLocked v' \<and>
     masterPassword v = masterPassword v' \<and>
     rel_option same_key_material (loadWallet wid (storage v)) (loadWallet wid (storage v'))"

definition has_entry :: "string \<Rightarrow> TransactionTracker \<Rightarrow> bool" where
  "has_entry tid tr \<longleftrightarrow> map_of (transactions tr) tid \<noteq> None"

text \<open>
  What processing an item keeps of the service: the signing state of the vault for
  the wallet \<open>w\<close>, against a vault \<open>v\<close>, and the configuration of the approval UI.
\<close>

definition keeps :: "SeedVaultMock \<Rightarrow> Wallet \<Rightarrow> TransactionUIConfig \<Rightarrow> MWAServiceImpl \<Rightarrow> bool" where
  "keeps v w cfg svc \<longleftrightarrow>
     same_signing_state (wallet_id w) v (seedVault svc) \<and> ui_config (transactionUI svc) = cfg"

section \<open>Laws of the libraries\<close>




section \<open>A small instance of the libraries, and example states\<close>

text \<open>
  Stand-ins for the library functions, small enough to compute with, on which the
  theorems below are exercised. A character and a byte correspond by their code; the
  cipher prepends the key, and deciphering fails unless the key is there.
\<close>

definition toy_encode :: "string \<Rightarrow> bytes" where
  "toy_encode s = map (\<lambda>c. of_nat (of_char c)) s"

definition toy_decode :: "bytes \<Rightarrow> string" where
  "toy_decode b = map (\<lambda>w. char_of (unat w)) b"

definition toy_pbkdf2 :: "string \<Rightarrow> bytes \<Rightarrow> nat \<Rightarrow> nat \<Rightarrow> bytes" where
  "toy_pbkdf2 pw salt n len = take len (toy_encode pw @ salt @ replicate len 0)"

definition toy_libraries :: Libraries where
  "toy_libraries =
     \<lparr>bip39_validateMnemonic = (\<lambda>m. m \<noteq> []),
      bip39_mnemonicToSeedSync = (\<lambda>m p. toy_encode (m @ p)),
      hd_derivePath = (\<lambda>path seed. Inr seed),
      Keypair_fromSeed = (\<lambda>s. Inr \<lparr>kp_publicKey = toy_decode s, kp_secretKey = s\<rparr>),
      pbkdf2Sync = toy_pbkdf2,
      aes256cbc_cipher =
        (\<lambda>key iv m. if length key = 32 \<and> length iv = 16 then Inr (key @ m)
                    else Inl ''Invalid key length''),
      aes256cbc_decipher =
        (\<lambda>key iv ct. if length key = 32 \<and> length iv = 16
                     then (if take 32 ct = key then Inr (drop 32 ct) else Inl ''bad decrypt'')
                     else Inl ''Invalid key length''),
      utf8_encode = toy_encode,
      utf8_decode = toy_decode,
      hex_encode = toy_decode,
      hex_decode = toy_encode,
      base64_encode = toy_decode,
      base64_decode = toy_encode,
      sha256_hex = toy_decode,
      nacl_sign_detached = (\<lambda>msg sk. Inr (sk @ msg)),
      JSON_stringify = km_mnemonic,
      JSON_parse = (\<lambda>s. if s = [] then Inl ''Unexpected end of JSON input''
                         else Inr \<lparr>km_mnemonic = s, km_secretKey = []\<rparr>),
      Transaction_serialize = (\<lambda>t. Inr [])\<rparr>"




text \<open>A vault on memory storage, constructed at time 0 and initialised at time 1000.\<close>

definition fresh_vault :: SeedVaultMock where
  "fresh_vault =
     snd (initialize 1000 None (new_SeedVaultMock 0 \<lparr>key_autoLock = None, key_lockTimeout = None\<rparr> True))"

text \<open>
  The vault unlocked with password \<open>pw1234\<close>; the same after importing the mnemonic
  \<open>abandon about\<close>; that wallet as stored; the vault with the stored public key
  overwritten; the vault locked again; and two transfer transactions.
\<close>

definition default_path :: string where
  "default_path = formatDerivationPath \<lparr>purpose = 44, coinType = 501, account = 0, change = 0, addressIndex = 0\<rparr>"

definition demo_profile :: WalletProfile where
  "demo_profile = \<lparr>name = ''Test Wallet'', mnemonic = None, derivationPath = default_path, network = devnet\<rparr>"

definition demo_rnd :: Randomness where
  "demo_rnd = \<lparr>rnd_salt = replicate 32 7, rnd_iv = replicate 16 9, rnd_walletId = [1, 2, 3], rnd_mnemonic = ''legal winner''\<rparr>"

definition unlocked_vault :: SeedVaultMock where
  "unlocked_vault = snd (unlock 2000 ''pw1234'' fresh_vault)"

definition vault_with_wallet :: SeedVaultMock where
  "vault_with_wallet = snd (importWallet toy_libraries 3000 demo_rnd demo_profile ''abandon about'' unlocked_vault)"

definition demo_blob :: string where
  "demo_blob = toy_decode (replicate 32 7 @ replicate 16 9 @
       toy_pbkdf2 ''pw1234'' (replicate 32 7) KEY_DERIVATION_ITERATIONS 32 @ toy_encode ''abandon about'')"

definition demo_wallet :: Wallet where
  "demo_wallet = \<lparr>wallet_id = take 16 ''abandon about'', profile = demo_profile\<lparr>mnemonic := Some ''abandon about''\<rparr>,
      publicKey = ''abandon about'', encryptedPrivateKey = demo_blob, createdAt = 3000, lastUsed = 3000\<rparr>"

definition tampered_vault :: SeedVaultMock where
  "tampered_vault =
     vault_with_wallet\<lparr>storage := saveWallet (demo_wallet\<lparr>publicKey := ''tampered key''\<rparr>)
                                      (storage vault_with_wallet)\<rparr>"

definition transfer_instruction :: "bytes \<Rightarrow> TransactionInstruction" where
  "transfer_instruction lamports =
     \<lparr>programId = Some SYSTEM_PROGRAM_ID,
      keys = [\<lparr>pubkey = Some ''abandon about'', isSigner = True, isWritable = True\<rparr>,
              \<lparr>pubkey = Some ''recipient'', isSigner = False, isWritable = True\<rparr>],
      data = [2, 0, 0, 0] @ lamports\<rparr>"

definition transfer_tx :: "bytes \<Rightarrow> Transaction" where
  "transfer_tx lamports =
     \<lparr>feePayer = Some ''abandon about'',
      recentBlockhash = Some ''EkSnNWid2cvwEVnVx9aBqawnmiCNiDgp3gUdkDPTKN1N'',
      instructions = [transfer_instruction lamports],
      signatures = []\<rparr>"

definition relocked_vault :: SeedVaultMock where
  "relocked_vault = snd (lock 3500 vault_with_wallet)"



section \<open>Properties of CryptoUtils\<close>

subsection \<open>The small instance satisfies the laws\<close>

lemma toy_decode_encode: "toy_decode (toy_encode s) = s"
  unfolding toy_decode_def toy_encode_def
  by (induction s) (simp_all add: unat_of_nat)

lemma unat_byte_mod: "unat (w :: 8 word) mod 256 = unat w"
  using unsigned_less [of w, where 'a = nat] by simp

lemma toy_encode_decode: "toy_encode (toy_decode b) = b"
  unfolding toy_decode_def toy_encode_def
  by (induction b) (simp_all add: unat_byte_mod)



lemma length_toy_pbkdf2 [simp]: "length (toy_pbkdf2 pw salt n len) = len"
  by (auto simp add: toy_pbkdf2_def min_def)




subsection \<open>Encryption round trip\<close>





subsection \<open>Derivation path round trip\<close>

lemma digit_cases: "d < 10 \<Longrightarrow> d \<in> {0, 1, 2, 3, 4, 5, 6, 7, 8, 9::nat}"
  by auto

lemma is_digit_char_of_digit: "d < 10 \<Longrightarrow> is_digit (char_of_digit d)"
  by (drule digit_cases) (auto simp: is_digit_def char_of_digit_def)

lemma digit_of_char_of_digit: "d < 10 \<Longrightarrow> digit_of_char (char_of_digit d) = d"
  by (drule digit_cases) (auto simp: digit_of_char_def char_of_digit_def)

lemma decimal_digits: "\<forall>c \<in> set (decimal n). is_digit c"
  by (induction n rule: decimal.induct) (subst decimal.simps, auto simp: is_digit_char_of_digit)

lemma decimal_nonempty: "decimal n \<noteq> []"
  by (subst decimal.simps) simp

lemma digits_decimal: "foldl (\<lambda>a c. 10 * a + digit_of_char c) 0 (decimal n) = n"
proof (induction n rule: decimal.induct)
  case (1 n)
  show ?case
  proof (cases "n < 10")
    case True
    then show ?thesis
      by (subst decimal.simps) (simp add: digit_of_char_of_digit)
  next
    case False
    with 1 have "foldl (\<lambda>a c. 10 * a + digit_of_char c) 0 (decimal (n div 10)) = n div 10"
      by simp
    with False show ?thesis
      by (subst decimal.simps) (simp add: digit_of_char_of_digit)
  qed
qed

lemma parseInt_decimal: "parseInt (decimal n) = round_to_double n"
  by (simp add: parseInt_def digits_decimal)

lemma not_digit_quote: "\<not> is_digit (CHR 0x27)"
  by (simp add: is_digit_def)

lemma takeWhile_decimal: "\<not> is_digit c \<Longrightarrow> takeWhile is_digit (decimal n @ c # r) = decimal n"
  using decimal_digits by (simp add: takeWhile_tail)

lemma dropWhile_decimal: "\<not> is_digit c \<Longrightarrow> dropWhile is_digit (decimal n @ c # r) = c # r"
  using decimal_digits by simp

lemma match_levels_hardened:
  "match_levels (True # hs) (CHR ''/'' # decimal n @ CHR 0x27 # r) =
     map_option ((#) (decimal n)) (match_levels hs r)"
  by (simp add: takeWhile_decimal dropWhile_decimal not_digit_quote decimal_nonempty)

lemma regex_match_format:
  "regex_match hardenedRegex
     (''m/'' @ decimal a @ [CHR 0x27] @ ''/'' @ decimal b @ [CHR 0x27] @ ''/'' @ decimal c @ [CHR 0x27] @
      ''/'' @ decimal d @ [CHR 0x27] @ ''/'' @ decimal e @ [CHR 0x27]) =
   Some [decimal a, decimal b, decimal c, decimal d, decimal e]"
  unfolding regex_match_def hardenedRegex_def
  by (simp add: match_levels_hardened del: match_levels.simps(2))

text \<open>The shortest decimal of a number below \<open>10\<^sup>2\<^sup>1\<close> denotes it and is below \<open>10\<^sup>2\<^sup>1\<close>.\<close>

lemma digit_count_le: "0 < k \<Longrightarrow> x < 10 ^ k \<Longrightarrow> digit_count x \<le> k"
proof (induction k arbitrary: x)
  case 0
  then show ?case by simp
next
  case (Suc k)
  show ?case
  proof (cases "x < 10")
    case True
    then show ?thesis by (subst digit_count.simps) simp
  next
    case False
    with Suc.prems have k: "0 < k" by (cases k) auto
    from Suc.prems have "x div 10 < 10 ^ k" by (simp add: less_mult_imp_div_less mult.commute)
    with Suc.IH k have "digit_count (x div 10) \<le> k" by simp
    with False show ?thesis by (subst digit_count.simps) simp
  qed
qed

lemma round_to_double_ten21: "round_to_double (10 ^ 21) = 10 ^ 21"
  by (simp add: round_to_double_def round_at_def bit_length.simps)

lemma lower_multiple_le: "lower_multiple x j \<le> x"
  by (simp add: lower_multiple_def)

lemma upper_multiple_le: "x < 10 ^ 21 \<Longrightarrow> j \<le> 21 \<Longrightarrow> upper_multiple x j \<le> 10 ^ 21"
proof -
  assume x: "x < 10 ^ 21" and j: "j \<le> 21"
  have split: "(10::nat) ^ 21 = 10 ^ (21 - j) * 10 ^ j"
    using j by (simp flip: power_add)
  with x have "x div 10 ^ j < 10 ^ (21 - j)"
    by (simp add: less_mult_imp_div_less)
  then have "x div 10 ^ j + 1 \<le> 10 ^ (21 - j)" by simp
  then have "(x div 10 ^ j + 1) * 10 ^ j \<le> 10 ^ (21 - j) * 10 ^ j"
    by (rule mult_le_mono1)
  with split show ?thesis by (simp add: upper_multiple_def lower_multiple_def)
qed

lemma upper_multiple_less:
  assumes "x < 10 ^ 21" "j \<le> 21" "round_to_double (upper_multiple x j) = x"
  shows "upper_multiple x j < 10 ^ 21"
proof (rule ccontr)
  assume "\<not> upper_multiple x j < 10 ^ 21"
  with upper_multiple_le [OF assms(1,2)] have "upper_multiple x j = 10 ^ 21" by simp
  with assms(3) round_to_double_ten21 have "x = 10 ^ 21" by simp
  with assms(1) show False by simp
qed

lemma nearest_cases: "nearest x j = lower_multiple x j \<or> nearest x j = upper_multiple x j"
  by (simp add: nearest_def)

lemma shortest_from_denotes: "is_number x \<Longrightarrow> round_to_double (shortest_from x j) = x"
proof (induction x j rule: shortest_from.induct)
  case (1 x j)
  show ?case
    using 1 nearest_cases [of x j]
    by (subst shortest_from.simps) (auto simp: is_number_def)
qed

lemma shortest_from_less:
  "x < 10 ^ 21 \<Longrightarrow> j \<le> 21 \<Longrightarrow> shortest_from x j < 10 ^ 21"
proof (induction x j rule: shortest_from.induct)
  case (1 x j)
  have lo: "lower_multiple x j < 10 ^ 21"
    using lower_multiple_le [of x j] "1.prems"(1) by simp
  have hi: "round_to_double (upper_multiple x j) = x \<Longrightarrow> upper_multiple x j < 10 ^ 21"
    using upper_multiple_less [OF "1.prems"] .
  show ?case
    using 1 lo hi nearest_cases [of x j]
    by (subst shortest_from.simps) auto
qed

lemma number_toString_decimal:
  assumes "x < 10 ^ 21"
  shows "number_toString x = decimal (shortest_decimal x)"
proof -
  have "digit_count x \<le> 21"
    using digit_count_le [of 21 x] assms by simp
  with assms have "shortest_decimal x < 10 ^ 21"
    unfolding shortest_decimal_def by (rule shortest_from_less)
  then show ?thesis
    by (simp add: number_toString_def)
qed

lemma parseInt_shortest: "is_number x \<Longrightarrow> parseInt (decimal (shortest_decimal x)) = x"
  by (simp add: parseInt_decimal shortest_decimal_def shortest_from_denotes)

text \<open>How numbers from \<open>2\<^sup>5\<^sup>3\<close> on are printed and read.\<close>

lemma number_toString_examples:
  "number_toString (2 ^ 64) = ''18446744073709552000''"
  "number_toString (2 ^ 70) = ''1.1805916207174113e+21''"
  by (simp_all add: number_toString_def shortest_decimal_def shortest_from.simps
      lower_multiple_def upper_multiple_def nearest_def round_to_double_def round_at_def
      bit_length.simps digit_count.simps decimal.simps exponential_def char_of_digit_def Let_def)

lemma parseInt_example: "parseInt ''9007199254740993'' = 9007199254740992"
  by (simp add: parseInt_def digit_of_char_def round_to_double_def round_at_def bit_length.simps)

text \<open>
  Claim C8, as amended. For every \<open>DerivationPathComponents\<close> value \<open>c\<close> whose five
  fields are numbers that are nonnegative integers below \<open>10\<^sup>2\<^sup>1\<close>,
  \<open>parseDerivationPath (formatDerivationPath c)\<close> returns \<open>c\<close>.
\<close>

theorem parse_format_roundtrip:
  assumes "is_number (purpose c)" and "is_number (coinType c)" and "is_number (account c)"
    and "is_number (change c)" and "is_number (addressIndex c)"
    and "purpose c < 10 ^ 21" and "coinType c < 10 ^ 21" and "account c < 10 ^ 21"
    and "change c < 10 ^ 21" and "addressIndex c < 10 ^ 21"
  shows "parseDerivationPath (formatDerivationPath c) = Inr (c :: DerivationPathComponents)"
proof -
  have "formatDerivationPath c =
     ''m/'' @ decimal (shortest_decimal (purpose c)) @ [CHR 0x27] @
     ''/'' @ decimal (shortest_decimal (coinType c)) @ [CHR 0x27] @
     ''/'' @ decimal (shortest_decimal (account c)) @ [CHR 0x27] @
     ''/'' @ decimal (shortest_decimal (change c)) @ [CHR 0x27] @
     ''/'' @ decimal (shortest_decimal (addressIndex c)) @ [CHR 0x27]"
    using assms(6-10) by (simp add: formatDerivationPath_def number_toString_decimal)
  then have "regex_match hardenedRegex (formatDerivationPath c) =
     Some [decimal (shortest_decimal (purpose c)), decimal (shortest_decimal (coinType c)),
           decimal (shortest_decimal (account c)), decimal (shortest_decimal (change c)),
           decimal (shortest_decimal (addressIndex c))]"
    by (simp only: regex_match_format)
  then show ?thesis
    using assms(1-5)
    by (simp add: parseDerivationPath_def components_of_match_def parseInt_shortest)
qed

theorem parse_format_roundtrip_witness:
  "is_number (2 ^ 64) \<and>
   parseDerivationPath (formatDerivationPath
      \<lparr>purpose = 44, coinType = 501, account = 2 ^ 64, change = 0, addressIndex = 7\<rparr>) =
   Inr \<lparr>purpose = 44, coinType = 501, account = 2 ^ 64, change = 0, addressIndex = 7\<rparr>"
  using parse_format_roundtrip
    [of "\<lparr>purpose = 44, coinType = 501, account = 2 ^ 64, change = 0, addressIndex = 7\<rparr>"]
  by (simp add: is_number_def round_to_double_def round_at_def bit_length.simps)

text \<open>
  Claim C8 as stated fails where a field reaches \<open>10\<^sup>2\<^sup>1\<close>, which is a number: the
  template literal prints \<open>1e+21\<close>, which neither regular expression accepts, and
  \<open>parseDerivationPath\<close> throws.
\<close>

theorem parse_format_exponent_counterexample:
  "is_number (10 ^ 21) \<and>
   parseDerivationPath (formatDerivationPath
      \<lparr>purpose = 10 ^ 21, coinType = 501, account = 0, change = 0, addressIndex = 0\<rparr>) =
   Inl (createError INVALID_DERIVATION_PATH
          (''Invalid derivation path format: m/1e+21'' @ [CHR 0x27] @ ''/501'' @ [CHR 0x27] @
           ''/0'' @ [CHR 0x27] @ ''/0'' @ [CHR 0x27] @ ''/0'' @ [CHR 0x27]))"
  by (simp add: parseDerivationPath_def formatDerivationPath_def regex_match_def
      hardenedRegex_def mixedRegex_def is_number_def
      number_toString_def shortest_decimal_def shortest_from.simps
      lower_multiple_def upper_multiple_def nearest_def round_to_double_def round_at_def
      bit_length.simps digit_count.simps decimal.simps exponential_def
      char_of_digit_def is_digit_def)
section \<open>Properties of the Seed Vault\<close>

lemma fresh_vault_eq:
  "fresh_vault =
     \<lparr>storage = \<lparr>fileSystem = False, wallets = [],
                  stored_config = Some \<lparr>autoLock = Some True, lockTimeout = Some 900000\<rparr>,
                  locked = False\<rparr>,
      isInitialized = True, isLocked = True, masterPassword = None,
      config = \<lparr>autoLock = Some True, lockTimeout = Some 900000\<rparr>,
      lockTimeoutHandle = None, lastActivity = 1000\<rparr>"
  by (simp add: fresh_vault_def initialize_def new_SeedVaultMock_def merge_config_def
      storage_initialize_def updateActivity_def truthy_autoLock_def Let_def)

lemma ensureUnlocked_locked:
  "isInitialized v \<Longrightarrow> isLocked v \<Longrightarrow>
   ensureUnlocked v = Some (createError VAULT_LOCKED ''Seed Vault is locked'')"
  by (simp add: ensureUnlocked_def ensureInitialized_def)

subsection \<open>The locked vault\<close>

text \<open>
  Claim C1, as amended. On an initialised vault in the Locked state, \<open>generateWallet\<close>,
  \<open>importWallet\<close>, \<open>exportWallet\<close>, \<open>listWallets\<close>, \<open>getWallet\<close>,
  \<open>deleteWallet\<close>, \<open>deriveKeypair\<close>, \<open>deriveKeypairFromComponents\<close>,
  \<open>getPublicKey\<close>, \<open>signTransaction\<close> and \<open>signMessage\<close> each throw
  \<open>VAULT_LOCKED\<close> and leave the vault as it was. \<open>lock\<close> returns without an error
  and changes nothing, and \<open>reset\<close> succeeds: it empties the storage and leaves the
  vault locked.
\<close>

theorem locked_vault_operations:
  assumes "isInitialized v" and "isLocked v"
  shows "generateWallet L now rnd prof v = (Inl (createError VAULT_LOCKED ''Seed Vault is locked''), v)
     \<and> importWallet L now rnd prof mn v = (Inl (createError VAULT_LOCKED ''Seed Vault is locked''), v)
     \<and> exportWallet L now wid v = (Inl (createError VAULT_LOCKED ''Seed Vault is locked''), v)
     \<and> listWallets now v = (Inl (createError VAULT_LOCKED ''Seed Vault is locked''), v)
     \<and> getWallet now wid v = (Inl (createError VAULT_LOCKED ''Seed Vault is locked''), v)
     \<and> deleteWallet now wid v = (Inl (createError VAULT_LOCKED ''Seed Vault is locked''), v)
     \<and> deriveKeypair L now wid path v = (Inl (createError VAULT_LOCKED ''Seed Vault is locked''), v)
     \<and> deriveKeypairFromComponents L now wid comps v =
          (Inl (createError VAULT_LOCKED ''Seed Vault is locked''), v)
     \<and> getPublicKey now wid v = (Inl (createError VAULT_LOCKED ''Seed Vault is locked''), v)
     \<and> signTransaction L now wid tx aa v = (Inl (createError VAULT_LOCKED ''Seed Vault is locked''), v)
     \<and> signMessage L now wid msg aa v = (Inl (createError VAULT_LOCKED ''Seed Vault is locked''), v)
     \<and> lock now v = (Inr (), v)
     \<and> fst (reset v) = Inr ()
     \<and> isLocked (snd (reset v)) \<and> wallets (storage (snd (reset v))) = []"
  using ensureUnlocked_locked [OF assms] assms
  by (simp add: generateWallet_def importWallet_def exportWallet_def listWallets_def getWallet_def
      deleteWallet_def deriveKeypair_def deriveKeypairFromComponents_def getPublicKey_def
      signTransaction_def signMessage_def lock_def reset_def ensureInitialized_def
      clearLockTimeout_def storage_clear_def)

theorem locked_vault_operations_witness:
  "isInitialized fresh_vault \<and> isLocked fresh_vault \<and>
   listWallets 2000 fresh_vault =
     (Inl (createError VAULT_LOCKED ''Seed Vault is locked''), fresh_vault) \<and>
   lock 2000 fresh_vault = (Inr (), fresh_vault)"
  using locked_vault_operations [of fresh_vault]
  by (simp add: fresh_vault_eq)

text \<open>
  Claim C1 as stated fails for \<open>lock\<close> and \<open>reset\<close>: on the locked vault both return
  without throwing.
\<close>

theorem locked_lock_reset_counterexample:
  "isInitialized fresh_vault \<and> isLocked fresh_vault \<and>
   fst (lock 2000 fresh_vault) = Inr () \<and> fst (reset fresh_vault) = Inr ()"
  by (simp add: fresh_vault_eq lock_def reset_def ensureInitialized_def)

subsection \<open>The example states\<close>

lemma unlocked_vault_eq:
  "unlocked_vault =
     \<lparr>storage = \<lparr>fileSystem = False, wallets = [],
                  stored_config = Some \<lparr>autoLock = Some True, lockTimeout = Some 900000\<rparr>,
                  locked = False\<rparr>,
      isInitialized = True, isLocked = False, masterPassword = Some ''pw1234'',
      config = \<lparr>autoLock = Some True, lockTimeout = Some 900000\<rparr>,
      lockTimeoutHandle = Some 902000, lastActivity = 2000\<rparr>"
  by (simp add: unlocked_vault_def fresh_vault_eq unlock_def ensureInitialized_def updateActivity_def
      setupAutoLock_def clearLockTimeout_def truthy_autoLock_def Let_def)

lemma toy_derive:
  "m \<noteq> [] \<Longrightarrow> deriveKeypairFromMnemonic toy_libraries m path =
     Inr \<lparr>kp_publicKey = m, kp_secretKey = toy_encode m\<rparr>"
  by (simp add: deriveKeypairFromMnemonic_def mnemonicToSeed_def deriveKeypairFromSeed_def
      toy_libraries_def toy_decode_encode)

lemma toy_encrypt:
  "length salt = 32 \<Longrightarrow> length iv = 16 \<Longrightarrow>
   encrypt toy_libraries salt iv p pw =
     Inr (toy_decode (salt @ iv @ toy_pbkdf2 pw salt KEY_DERIVATION_ITERATIONS 32 @ toy_encode p))"
  by (simp add: encrypt_def deriveEncryptionKey_def toy_libraries_def toy_encode_decode Let_def)

lemma import_first:
  "importWallet toy_libraries 3000 demo_rnd demo_profile ''abandon about'' unlocked_vault =
     (Inr demo_wallet,
      unlocked_vault\<lparr>lastActivity := 3000, lockTimeoutHandle := Some 903000,
         storage := (storage unlocked_vault)\<lparr>wallets := [(take 16 ''abandon about'', demo_wallet)]\<rparr>\<rparr>)"
  by (simp add: importWallet_def importWallet_try_def ensureUnlocked_def ensureInitialized_def
      unlocked_vault_eq updateActivity_def setupAutoLock_def clearLockTimeout_def truthy_autoLock_def
      toy_derive loadAllWallets_def new_wallet_def encrypt_with_def toy_encrypt demo_rnd_def
      generateDeterministicWalletId_def hash_def saveWallet_def demo_wallet_def demo_blob_def
      demo_profile_def Let_def)
     (simp add: toy_libraries_def toy_decode_encode)

subsection \<open>Importing a wallet that is already stored\<close>

lemma storage_updateActivity [simp]: "storage (updateActivity now v) = storage v"
  by (simp add: updateActivity_def setupAutoLock_def clearLockTimeout_def Let_def split: option.splits)

lemma masterPassword_updateActivity [simp]: "masterPassword (updateActivity now v) = masterPassword v"
  by (simp add: updateActivity_def setupAutoLock_def clearLockTimeout_def Let_def split: option.splits)

lemma isLocked_updateActivity [simp]: "isLocked (updateActivity now v) = isLocked v"
  by (simp add: updateActivity_def setupAutoLock_def clearLockTimeout_def Let_def split: option.splits)

lemma isInitialized_updateActivity [simp]: "isInitialized (updateActivity now v) = isInitialized v"
  by (simp add: updateActivity_def setupAutoLock_def clearLockTimeout_def Let_def split: option.splits)

lemma ensureUnlocked_None: "ensureUnlocked v = None \<longleftrightarrow> isInitialized v \<and> \<not> isLocked v"
  by (simp add: ensureUnlocked_def ensureInitialized_def)

lemma set_loadAllWallets: "set (loadAllWallets st) = snd ` set (wallets st)"
  by (simp add: loadAllWallets_def)

lemma find_loadAllWallets_None:
  "find P (loadAllWallets st) = None \<longleftrightarrow> (\<forall>w \<in> snd ` set (wallets st). \<not> P w)"
  by (auto simp add: find_None_iff set_loadAllWallets)

lemma importWallet_try_duplicate:
  assumes "bip39_validateMnemonic L mn"
    and "deriveKeypairFromMnemonic L mn (derivationPath prof) = Inr kp"
    and "\<exists>w \<in> snd ` set (wallets (storage v)). publicKey w = kp_publicKey kp"
  shows "importWallet_try L now rnd prof mn v =
      Inl (Coded (createError WALLET_NOT_FOUND ''Wallet with this public key already exists''))"
proof -
  have "find (\<lambda>w. publicKey w = kp_publicKey kp) (loadAllWallets (storage v)) \<noteq> None"
    using assms(3) by (simp add: find_loadAllWallets_None)
  then obtain w where
    "find (\<lambda>w. publicKey w = kp_publicKey kp) (loadAllWallets (storage v)) = Some w"
    by blast
  then show ?thesis
    using assms(1,2) by (simp add: importWallet_try_def)
qed

lemma toy_validate: "bip39_validateMnemonic toy_libraries m \<longleftrightarrow> m \<noteq> []"
  by (simp add: toy_libraries_def)

lemma vault_with_wallet_eq:
  "vault_with_wallet =
     \<lparr>storage = \<lparr>fileSystem = False, wallets = [(''abandon about'', demo_wallet)],
                  stored_config = Some \<lparr>autoLock = Some True, lockTimeout = Some 900000\<rparr>,
                  locked = False\<rparr>,
      isInitialized = True, isLocked = False, masterPassword = Some ''pw1234'',
      config = \<lparr>autoLock = Some True, lockTimeout = Some 900000\<rparr>,
      lockTimeoutHandle = Some 903000, lastActivity = 3000\<rparr>"
  by (simp add: vault_with_wallet_def import_first) (simp add: unlocked_vault_eq)

text \<open>
  Claim C3. On an unlocked vault, \<open>importWallet\<close> with a valid mnemonic whose derived
  public key is the public key of a stored wallet throws, and leaves the stored wallets as
  they were. The error thrown says that the wallet already exists, but the code it carries
  is \<open>WALLET_NOT_FOUND\<close>: \<open>SeedVaultErrorCode\<close> has no code for a duplicate.
\<close>

theorem importWallet_duplicate_error:
  assumes "isInitialized v" and "\<not> isLocked v"
    and "bip39_validateMnemonic L mn"
    and "deriveKeypairFromMnemonic L mn (derivationPath prof) = Inr kp"
    and "\<exists>w \<in> snd ` set (wallets (storage v)). publicKey w = kp_publicKey kp"
  shows "fst (importWallet L now rnd prof mn v) =
           Inl (createError WALLET_NOT_FOUND ''Wallet with this public key already exists'')
       \<and> storage (snd (importWallet L now rnd prof mn v)) = storage v"
proof -
  have u: "ensureUnlocked v = None"
    using assms(1,2) by (simp add: ensureUnlocked_None)
  have "\<exists>w \<in> snd ` set (wallets (storage (updateActivity now v))). publicKey w = kp_publicKey kp"
    using assms(5) by simp
  then have "importWallet_try L now rnd prof mn (updateActivity now v) =
      Inl (Coded (createError WALLET_NOT_FOUND ''Wallet with this public key already exists''))"
    using assms(3,4) by (rule importWallet_try_duplicate [rotated 2])
  then show ?thesis
    using u by (simp add: importWallet_def rethrow_def Let_def)
qed

theorem importWallet_duplicate_error_witness:
  "fst (importWallet toy_libraries 4000 demo_rnd demo_profile ''abandon about'' vault_with_wallet) =
     Inl (createError WALLET_NOT_FOUND ''Wallet with this public key already exists'')
   \<and> storage (snd (importWallet toy_libraries 4000 demo_rnd demo_profile ''abandon about''
                     vault_with_wallet)) = storage vault_with_wallet"
  using importWallet_duplicate_error
    [of vault_with_wallet toy_libraries "''abandon about''" demo_profile
        "\<lparr>kp_publicKey = ''abandon about'', kp_secretKey = toy_encode ''abandon about''\<rparr>"
        4000 demo_rnd]
  by (simp add: vault_with_wallet_eq toy_derive toy_validate demo_wallet_def)

lemma update_member: "(k, v) \<in> set (AList.update k v al)"
  by (induction al) auto

lemma update_count:
  "\<forall>x \<in> set al. \<not> P (snd x) \<Longrightarrow> P v \<Longrightarrow>
   length (filter (\<lambda>x. P (snd x)) (AList.update k v al)) = 1"
  by (induction al) auto

lemma importWallet_success:
  assumes "importWallet L now rnd prof mn v = (Inr w, v1)"
  obtains kp where "isInitialized v" and "\<not> isLocked v" and "bip39_validateMnemonic L mn"
    and "deriveKeypairFromMnemonic L mn (derivationPath prof) = Inr kp"
    and "\<forall>x \<in> snd ` set (wallets (storage v)). publicKey x \<noteq> kp_publicKey kp"
    and "publicKey w = kp_publicKey kp"
    and "wallet_id w = generateDeterministicWalletId L (kp_publicKey kp)"
    and "v1 = (updateActivity now v)\<lparr>storage := saveWallet w (storage v)\<rparr>"
proof -
  from assms have u: "ensureUnlocked v = None"
    by (auto simp add: importWallet_def split: option.splits)
  with assms have t: "importWallet_try L now rnd prof mn (updateActivity now v) = Inr (w, v1)"
    by (auto simp add: importWallet_def Let_def split: sum.splits)
  from t have val: "bip39_validateMnemonic L mn"
    by (auto simp add: importWallet_try_def split: if_splits)
  from t val obtain kp where kp: "deriveKeypairFromMnemonic L mn (derivationPath prof) = Inr kp"
    by (auto simp add: importWallet_try_def split: sum.splits)
  from t val kp have f: "find (\<lambda>x. publicKey x = kp_publicKey kp) (loadAllWallets (storage v)) = None"
    by (auto simp add: importWallet_try_def split: option.splits)
  from t val kp f have nw: "new_wallet L now rnd (updateActivity now v)
       (generateDeterministicWalletId L (kp_publicKey kp)) (prof\<lparr>mnemonic := Some mn\<rparr>) mn kp = Inr w"
    and v1: "v1 = (updateActivity now v)\<lparr>storage := saveWallet w (storage v)\<rparr>"
    by (auto simp add: importWallet_try_def split: sum.splits)
  from nw have "publicKey w = kp_publicKey kp"
    and "wallet_id w = generateDeterministicWalletId L (kp_publicKey kp)"
    by (auto simp add: new_wallet_def split: sum.splits)
  with u val kp f v1 that show thesis
    by (auto simp add: ensureUnlocked_None find_loadAllWallets_None)
qed

subsection \<open>Importing the same mnemonic again\<close>

text \<open>
  Claim C4, as amended. When \<open>importWallet\<close> succeeds, the id of the wallet it returns
  is \<open>generateDeterministicWalletId\<close> of the wallet's public key, so every successful
  import of the same mnemonic and profile, on any vault, returns the same id. A second
  import of that mnemonic and profile into the same vault does not return the wallet: it
  throws the error of claim C3 and leaves the storage as it was, and the vault holds
  exactly one wallet with that public key.
\<close>

theorem reimport_rejected_no_duplicate:
  assumes "importWallet L now rnd prof mn v = (Inr w, v1)"
  shows "wallet_id w = generateDeterministicWalletId L (publicKey w)
     \<and> (\<forall>now2 rnd2 v2 w2 v3. importWallet L now2 rnd2 prof mn v2 = (Inr w2, v3)
            \<longrightarrow> wallet_id w2 = wallet_id w)
     \<and> fst (importWallet L now' rnd' prof mn v1) =
          Inl (createError WALLET_NOT_FOUND ''Wallet with this public key already exists'')
     \<and> storage (snd (importWallet L now' rnd' prof mn v1)) = storage v1
     \<and> length (filter (\<lambda>x. publicKey x = publicKey w) (map snd (wallets (storage v1)))) = 1"
proof -
  from assms obtain kp where init: "isInitialized v" and unl: "\<not> isLocked v"
    and val: "bip39_validateMnemonic L mn"
    and kp: "deriveKeypairFromMnemonic L mn (derivationPath prof) = Inr kp"
    and fresh: "\<forall>x \<in> snd ` set (wallets (storage v)). publicKey x \<noteq> kp_publicKey kp"
    and pk: "publicKey w = kp_publicKey kp"
    and wid: "wallet_id w = generateDeterministicWalletId L (kp_publicKey kp)"
    and v1: "v1 = (updateActivity now v)\<lparr>storage := saveWallet w (storage v)\<rparr>"
    by (rule importWallet_success)
  have a: "wallet_id w = generateDeterministicWalletId L (publicKey w)"
    using wid pk by simp
  have b: "\<forall>now2 rnd2 v2 w2 v3. importWallet L now2 rnd2 prof mn v2 = (Inr w2, v3)
            \<longrightarrow> wallet_id w2 = wallet_id w"
  proof (intro allI impI)
    fix now2 rnd2 v2 w2 v3
    assume "importWallet L now2 rnd2 prof mn v2 = (Inr w2, v3)"
    then obtain kp2 where "deriveKeypairFromMnemonic L mn (derivationPath prof) = Inr kp2"
      and "wallet_id w2 = generateDeterministicWalletId L (kp_publicKey kp2)"
      by (rule importWallet_success)
    with kp wid show "wallet_id w2 = wallet_id w" by simp
  qed
  have i1: "isInitialized v1" and u1: "\<not> isLocked v1"
    using init unl v1 by simp_all
  have mem: "\<exists>x \<in> snd ` set (wallets (storage v1)). publicKey x = kp_publicKey kp"
  proof -
    have "(wallet_id w, w) \<in> set (wallets (storage v1))"
      by (simp add: v1 saveWallet_def update_member)
    then have "w \<in> snd ` set (wallets (storage v1))" by force
    with pk show ?thesis by blast
  qed
  have "\<exists>x \<in> snd ` set (wallets (storage (updateActivity now' v1))). publicKey x = kp_publicKey kp"
    using mem by simp
  then have "importWallet_try L now' rnd' prof mn (updateActivity now' v1) =
      Inl (Coded (createError WALLET_NOT_FOUND ''Wallet with this public key already exists''))"
    using val kp by (rule importWallet_try_duplicate [rotated 2])
  then have c: "fst (importWallet L now' rnd' prof mn v1) =
          Inl (createError WALLET_NOT_FOUND ''Wallet with this public key already exists'')
     \<and> storage (snd (importWallet L now' rnd' prof mn v1)) = storage v1"
    using i1 u1 by (simp add: importWallet_def ensureUnlocked_None [THEN iffD2] rethrow_def Let_def)
  have "length (filter (\<lambda>x. publicKey (snd x) = publicKey w)
          (AList.update (wallet_id w) w (wallets (storage v)))) = 1"
    using fresh pk by (intro update_count) auto
  then have d: "length (filter (\<lambda>x. publicKey x = publicKey w) (map snd (wallets (storage v1)))) = 1"
    by (simp add: v1 saveWallet_def filter_map comp_def)
  from a b c d show ?thesis by blast
qed

theorem reimport_rejected_no_duplicate_witness:
  "importWallet toy_libraries 3000 demo_rnd demo_profile ''abandon about'' unlocked_vault =
      (Inr demo_wallet, vault_with_wallet)
   \<and> wallet_id demo_wallet = generateDeterministicWalletId toy_libraries (publicKey demo_wallet)
   \<and> length (filter (\<lambda>x. publicKey x = publicKey demo_wallet)
               (map snd (wallets (storage vault_with_wallet)))) = 1"
proof -
  have h: "importWallet toy_libraries 3000 demo_rnd demo_profile ''abandon about'' unlocked_vault =
      (Inr demo_wallet, vault_with_wallet)"
    by (simp add: vault_with_wallet_def import_first)
  from reimport_rejected_no_duplicate [OF h] h show ?thesis by blast
qed

text \<open>
  Claim C4 as stated fails: the second import of the same mnemonic throws instead of
  returning the wallet.
\<close>

theorem reimport_throws_counterexample:
  "importWallet toy_libraries 3000 demo_rnd demo_profile ''abandon about'' unlocked_vault =
      (Inr demo_wallet, vault_with_wallet)
   \<and> fst (importWallet toy_libraries 4000 demo_rnd demo_profile ''abandon about'' vault_with_wallet) =
      Inl \<lparr>code = WALLET_NOT_FOUND, message = ''Wallet with this public key already exists''\<rparr>"
  by (simp add: vault_with_wallet_def import_first)
     (simp add: importWallet_def importWallet_try_def ensureUnlocked_def ensureInitialized_def
        unlocked_vault_eq updateActivity_def setupAutoLock_def clearLockTimeout_def truthy_autoLock_def
        toy_derive toy_validate loadAllWallets_def demo_wallet_def demo_profile_def rethrow_def
        createError_def Let_def)

subsection \<open>Signing\<close>

lemma toy_decrypt:
  assumes "length salt = 32" and "length iv = 16" and "length k = 32"
  shows "decrypt toy_libraries (toy_decode (salt @ iv @ k @ ct)) pw =
     (if k = toy_pbkdf2 pw salt KEY_DERIVATION_ITERATIONS 32 then Inr (toy_decode ct)
      else Inl (createError DECRYPTION_FAILED ''Decryption failed: bad decrypt''))"
  using assms
  by (simp add: decrypt_def deriveEncryptionKey_def toy_libraries_def toy_encode_decode Let_def
      SALT_LENGTH_def IV_LENGTH_def)

lemma demo_decrypt: "decrypt toy_libraries demo_blob ''pw1234'' = Inr ''abandon about''"
  unfolding demo_blob_def
  by (subst toy_decrypt) (simp_all add: toy_decode_encode)

lemma demo_decrypt_wrong:
  "decrypt toy_libraries demo_blob ''letmein'' =
     Inl (createError DECRYPTION_FAILED ''Decryption failed: bad decrypt'')"
  unfolding demo_blob_def
  by (subst toy_decrypt) (simp_all add: toy_pbkdf2_def toy_encode_def)

lemma demo_decryptedData:
  "masterPassword v = Some ''pw1234'' \<Longrightarrow>
   decryptedData_of toy_libraries v (demo_wallet\<lparr>publicKey := k\<rparr>) =
     Inr \<lparr>km_mnemonic = ''abandon about'', km_secretKey = []\<rparr>"
  by (simp add: decryptedData_of_def decrypt_with_def demo_wallet_def demo_decrypt)
     (simp add: toy_libraries_def)

lemma tampered_vault_eq:
  "tampered_vault =
     \<lparr>storage = \<lparr>fileSystem = False,
                  wallets = [(''abandon about'', demo_wallet\<lparr>publicKey := ''tampered key''\<rparr>)],
                  stored_config = Some \<lparr>autoLock = Some True, lockTimeout = Some 900000\<rparr>,
                  locked = False\<rparr>,
      isInitialized = True, isLocked = False, masterPassword = Some ''pw1234'',
      config = \<lparr>autoLock = Some True, lockTimeout = Some 900000\<rparr>,
      lockTimeoutHandle = Some 903000, lastActivity = 3000\<rparr>"
  by (simp add: tampered_vault_def vault_with_wallet_eq saveWallet_def) (simp add: demo_wallet_def)

lemma toy_sign: "nacl_sign_detached toy_libraries m sk = Inr (sk @ m)"
  by (simp add: toy_libraries_def)

text \<open>
  Claim C5 at a vault whose stored public key no longer matches the key derived from the
  decrypted mnemonic: \<open>signTransaction\<close> fails with \<open>SIGNING_FAILED\<close>, but
  \<open>signMessage\<close>, which has no such test, returns a signature made with the derived
  key.
\<close>

theorem signMessage_skips_key_check:
  "fst (signTransaction toy_libraries 5000 ''abandon about'' (transfer_tx [5, 0, 0, 0, 0, 0, 0, 0]) True
         tampered_vault) =
     Inl (createError SIGNING_FAILED ''Derived keypair does not match wallet public key'')
   \<and> fst (signMessage toy_libraries 5000 ''abandon about'' [1, 2, 3] True tampered_vault) =
     Inr \<lparr>msr_signature = toy_encode ''abandon about'' @ [1, 2, 3], msr_message = [1, 2, 3],
           msr_publicKey = ''abandon about'', msr_timestamp = 5000\<rparr>"
proof -
  have u: "ensureUnlocked tampered_vault = None"
    by (simp add: tampered_vault_eq ensureUnlocked_def ensureInitialized_def)
  have w: "loadWallet ''abandon about'' (storage tampered_vault) =
      Some (demo_wallet\<lparr>publicKey := ''tampered key''\<rparr>)"
    by (simp add: tampered_vault_eq loadWallet_def)
  have p: "masterPassword (updateActivity 5000 tampered_vault) = Some ''pw1234''"
    by (simp add: tampered_vault_eq)
  have dp: "derivationPath (profile (demo_wallet\<lparr>publicKey := ''tampered key''\<rparr>)) = default_path"
    by (simp add: demo_wallet_def demo_profile_def)
  have pk: "publicKey (demo_wallet\<lparr>publicKey := ''tampered key''\<rparr>) = ''tampered key''"
    by simp
  have a: "signTransaction_try toy_libraries 5000 (updateActivity 5000 tampered_vault)
             (demo_wallet\<lparr>publicKey := ''tampered key''\<rparr>) (transfer_tx [5, 0, 0, 0, 0, 0, 0, 0]) True =
           Inl (Coded (createError SIGNING_FAILED ''Derived keypair does not match wallet public key''))"
    by (simp add: signTransaction_try_def confirm_transaction_def verified_keypair_def
        derived_keypair_def demo_decryptedData [OF p] dp pk toy_derive)
  have b: "\<exists>v'. signMessage_try toy_libraries 5000 (updateActivity 5000 tampered_vault)
             (demo_wallet\<lparr>publicKey := ''tampered key''\<rparr>) [1, 2, 3] True =
           Inr (\<lparr>msr_signature = toy_encode ''abandon about'' @ [1, 2, 3], msr_message = [1, 2, 3],
                 msr_publicKey = ''abandon about'', msr_timestamp = 5000\<rparr>, v')"
    by (simp add: signMessage_try_def derived_keypair_def demo_decryptedData [OF p] dp toy_derive
        toy_sign Let_def)
  from a b show ?thesis
    by (auto simp add: signTransaction_def signMessage_def u w rethrow_def Let_def)
qed

lemma recentBlockhash_fold_add [simp]:
  "recentBlockhash (fold Transaction_add ins t) = recentBlockhash t"
  by (induction ins arbitrary: t) (simp_all add: Transaction_add_def)

lemma mock_signed_signature:
  assumes "instructions tx1 \<noteq> []" and "instructions tx2 \<noteq> []"
  shows "map_sum id sr_signature (mock_signed L now kp tx1) =
         map_sum id sr_signature (mock_signed L now kp tx2)"
  using assms by (simp add: mock_signed_def Let_def split: sum.splits)

lemma mock_signed_result:
  assumes "mock_signed L now kp tx = Inr r"
  shows "recentBlockhash (signedTransaction r) = Some ''EkSnNWid2cvwEVnVx9aBqawnmiCNiDgp3gUdkDPTKN1N''
       \<and> (\<exists>sk. nacl_sign_detached L (mockMessage L) sk = Inr (sr_signature r))"
  using assms
  by (auto simp add: mock_signed_def Let_def new_Transaction_def split: sum.splits if_splits)

lemma signTransaction_try_auto:
  "map_sum id (\<lambda>r. sr_signature (fst r)) (signTransaction_try L now v w tx True) =
     (case verified_keypair L v w of
        Inl t \<Rightarrow> Inl t
      | Inr kp \<Rightarrow> map_sum id sr_signature (mock_signed L now kp tx))"
  by (simp add: signTransaction_try_def confirm_transaction_def split: sum.splits)

lemma signTransaction_try_result:
  assumes "signTransaction_try L now v w tx aa = Inr (r, v')"
  shows "recentBlockhash (signedTransaction r) = Some ''EkSnNWid2cvwEVnVx9aBqawnmiCNiDgp3gUdkDPTKN1N''
       \<and> (\<exists>sk. nacl_sign_detached L (mockMessage L) sk = Inr (sr_signature r))"
proof -
  from assms obtain kp where "mock_signed L now kp tx = Inr r"
    by (auto simp add: signTransaction_try_def split: sum.splits if_splits)
  then show ?thesis by (rule mock_signed_result)
qed

text \<open>
  Claim C9. With \<open>autoApprove\<close>, the outcome of \<open>signTransaction\<close> on a vault and
  wallet is the same for any two transactions that have an instruction: the same error,
  or the same signature. Whenever \<open>signTransaction\<close> returns, the signature is
  \<open>nacl.sign.detached\<close> of the constant \<open>mockMessage\<close>, and the signed transaction
  carries the constant \<open>recentBlockhash\<close>.
\<close>

theorem signTransaction_ignores_transaction:
  assumes "instructions tx1 \<noteq> []" and "instructions tx2 \<noteq> []"
  shows "map_sum id sr_signature (fst (signTransaction L now wid tx1 True v)) =
         map_sum id sr_signature (fst (signTransaction L now wid tx2 True v))
     \<and> (\<forall>tx aa r. fst (signTransaction L now wid tx aa v) = Inr r \<longrightarrow>
           recentBlockhash (signedTransaction r) =
             Some ''EkSnNWid2cvwEVnVx9aBqawnmiCNiDgp3gUdkDPTKN1N''
           \<and> (\<exists>sk. nacl_sign_detached L (mockMessage L) sk = Inr (sr_signature r)))"
proof -
  have key: "map_sum id sr_signature (fst (signTransaction L now wid tx True v)) =
     (case ensureUnlocked v of
        Some e \<Rightarrow> Inl e
      | None \<Rightarrow>
         (case loadWallet wid (storage v) of
            None \<Rightarrow> Inl (createError WALLET_NOT_FOUND (''Wallet '' @ wid @ '' not found''))
          | Some w \<Rightarrow>
              map_sum (rethrow ''Failed to sign transaction: '') id
                (map_sum id (\<lambda>r. sr_signature (fst r))
                   (signTransaction_try L now (updateActivity now v) w tx True))))"
    for tx
    by (simp add: signTransaction_def Let_def split: option.splits sum.splits prod.splits)
  have one: "map_sum id sr_signature (fst (signTransaction L now wid tx1 True v)) =
         map_sum id sr_signature (fst (signTransaction L now wid tx2 True v))"
    unfolding key signTransaction_try_auto
    by (simp only: mock_signed_signature [OF assms])
  have two: "recentBlockhash (signedTransaction r) =
             Some ''EkSnNWid2cvwEVnVx9aBqawnmiCNiDgp3gUdkDPTKN1N''
           \<and> (\<exists>sk. nacl_sign_detached L (mockMessage L) sk = Inr (sr_signature r))"
    if "fst (signTransaction L now wid tx aa v) = Inr r" for tx aa r
  proof -
    from that obtain w v' where
      "signTransaction_try L now (updateActivity now v) w tx aa = Inr (r, v')"
      by (auto simp add: signTransaction_def Let_def split: option.splits sum.splits prod.splits)
    then show ?thesis by (rule signTransaction_try_result)
  qed
  from one two show ?thesis by blast
qed

lemma vault_with_wallet_unlocked: "ensureUnlocked vault_with_wallet = None"
  by (simp add: vault_with_wallet_eq ensureUnlocked_def ensureInitialized_def)

lemma demo_sign:
  assumes "instructions tx \<noteq> []"
  shows "map_sum id sr_signature
           (fst (signTransaction toy_libraries 5000 ''abandon about'' tx True vault_with_wallet)) =
         Inr (toy_encode ''abandon about'' @ mockMessage toy_libraries)"
proof -
  have w: "loadWallet ''abandon about'' (storage vault_with_wallet) = Some demo_wallet"
    by (simp add: vault_with_wallet_eq loadWallet_def)
  have p: "masterPassword (updateActivity 5000 vault_with_wallet) = Some ''pw1234''"
    by (simp add: vault_with_wallet_eq)
  have d: "decryptedData_of toy_libraries (updateActivity 5000 vault_with_wallet) demo_wallet =
     Inr \<lparr>km_mnemonic = ''abandon about'', km_secretKey = []\<rparr>"
    using demo_decryptedData [OF p, of "publicKey demo_wallet"] by simp
  have dp: "derivationPath (profile demo_wallet) = default_path"
    and pk: "publicKey demo_wallet = ''abandon about''"
    by (simp_all add: demo_wallet_def demo_profile_def)
  have "\<exists>r v'. signTransaction_try toy_libraries 5000 (updateActivity 5000 vault_with_wallet)
          demo_wallet tx True = Inr (r, v') \<and>
          sr_signature r = toy_encode ''abandon about'' @ mockMessage toy_libraries"
    using assms
    by (simp add: signTransaction_try_def confirm_transaction_def verified_keypair_def
        derived_keypair_def mock_signed_def d dp pk toy_derive toy_sign Let_def)
  then show ?thesis
    by (auto simp add: signTransaction_def vault_with_wallet_unlocked w Let_def)
qed

theorem signTransaction_ignores_transaction_witness:
  "instructions (transfer_tx [5, 0, 0, 0, 0, 0, 0, 0]) \<noteq> [] \<and>
   instructions (transfer_tx [9, 9, 0, 0, 0, 0, 0, 0]) \<noteq> [] \<and>
   transfer_tx [5, 0, 0, 0, 0, 0, 0, 0] \<noteq> transfer_tx [9, 9, 0, 0, 0, 0, 0, 0] \<and>
   map_sum id sr_signature
     (fst (signTransaction toy_libraries 5000 ''abandon about'' (transfer_tx [5, 0, 0, 0, 0, 0, 0, 0])
            True vault_with_wallet)) =
   Inr (toy_encode ''abandon about'' @ mockMessage toy_libraries) \<and>
   map_sum id sr_signature
     (fst (signTransaction toy_libraries 5000 ''abandon about'' (transfer_tx [9, 9, 0, 0, 0, 0, 0, 0])
            True vault_with_wallet)) =
   Inr (toy_encode ''abandon about'' @ mockMessage toy_libraries)"
proof -
  have a: "instructions (transfer_tx [5, 0, 0, 0, 0, 0, 0, 0]) \<noteq> []"
    and b: "instructions (transfer_tx [9, 9, 0, 0, 0, 0, 0, 0]) \<noteq> []"
    and c: "transfer_tx [5, 0, 0, 0, 0, 0, 0, 0] \<noteq> transfer_tx [9, 9, 0, 0, 0, 0, 0, 0]"
    by (simp_all add: transfer_tx_def transfer_instruction_def)
  from signTransaction_ignores_transaction [OF a b, of toy_libraries 5000 "''abandon about''" vault_with_wallet]
    demo_sign [OF a] a b c
  show ?thesis by simp
qed

subsection \<open>Unlocking\<close>

lemma setupAutoLock_fields [simp]:
  "storage (setupAutoLock now v) = storage v"
  "masterPassword (setupAutoLock now v) = masterPassword v"
  "isLocked (setupAutoLock now v) = isLocked v"
  "isInitialized (setupAutoLock now v) = isInitialized v"
  by (simp_all add: setupAutoLock_def clearLockTimeout_def Let_def split: option.splits)

lemma unlock_short:
  assumes "isInitialized v" and "isLocked v" and "length pw < 4"
  shows "unlock now pw v = (Inl (createError INVALID_PASSWORD ''Invalid password provided''), v)"
  using assms by (simp add: unlock_def ensureInitialized_def)

lemma unlock_long:
  assumes "isInitialized v" and "isLocked v" and "4 \<le> length pw"
  shows "fst (unlock now pw v) = Inr ()"
    and "\<not> isLocked (snd (unlock now pw v))"
    and "isInitialized (snd (unlock now pw v))"
    and "masterPassword (snd (unlock now pw v)) = Some pw"
    and "wallets (storage (snd (unlock now pw v))) = wallets (storage v)"
proof -
  from assms(3) have ne: "pw \<noteq> []" by auto
  from assms(3) have nl: "\<not> length pw < 4" by simp
  have eq: "unlock now pw v =
      (Inr (), setupAutoLock now (updateActivity now
         (if fileSystem (storage v)
          then v\<lparr>isLocked := False, masterPassword := Some pw,
                 storage := removeLock (storage v)\<rparr>
          else v\<lparr>isLocked := False, masterPassword := Some pw\<rparr>)))"
    using assms(1,2) ne nl by (simp add: unlock_def ensureInitialized_def Let_def)
  show "fst (unlock now pw v) = Inr ()" by (simp add: eq)
  show "\<not> isLocked (snd (unlock now pw v))" by (simp add: eq)
  show "isInitialized (snd (unlock now pw v))" using assms(1) by (simp add: eq)
  show "masterPassword (snd (unlock now pw v)) = Some pw" by (simp add: eq)
  show "wallets (storage (snd (unlock now pw v))) = wallets (storage v)"
    by (simp add: eq removeLock_def)
qed

text \<open>
  Claim C10. On an initialised, locked vault, \<open>unlock\<close> throws
  \<open>INVALID_PASSWORD\<close> exactly when the password has fewer than 4 characters. Every
  longer password unlocks the vault and becomes the master password, whatever the storage
  holds; and if \<open>decrypt\<close> of a stored wallet fails under that password,
  \<open>exportWallet\<close> of that wallet then throws \<open>DECRYPTION_FAILED\<close>.
\<close>

theorem unlock_password_gate:
  assumes "isInitialized v" and "isLocked v"
  shows "(fst (unlock now pw v) = Inl (createError INVALID_PASSWORD ''Invalid password provided'')
            \<longleftrightarrow> length pw < 4)
     \<and> (4 \<le> length pw \<longrightarrow>
          fst (unlock now pw v) = Inr () \<and> \<not> isLocked (snd (unlock now pw v))
          \<and> masterPassword (snd (unlock now pw v)) = Some pw
          \<and> wallets (storage (snd (unlock now pw v))) = wallets (storage v))
     \<and> (\<forall>wid w e. 4 \<le> length pw \<and> loadWallet wid (storage v) = Some w
            \<and> decrypt L (encryptedPrivateKey w) pw = Inl e \<longrightarrow>
          fst (exportWallet L now' wid (snd (unlock now pw v))) =
            Inl (createError DECRYPTION_FAILED (''Failed to export wallet: '' @ message e)))"
proof (intro conjI allI impI)
  show "(fst (unlock now pw v) = Inl (createError INVALID_PASSWORD ''Invalid password provided''))
          = (length pw < 4)"
  proof (cases "length pw < 4")
    case True
    then show ?thesis by (simp add: unlock_short [OF assms])
  next
    case False
    then have "4 \<le> length pw" by simp
    from unlock_long(1) [OF assms this] False show ?thesis by simp
  qed
next
  assume h: "4 \<le> length pw"
  show "fst (unlock now pw v) = Inr ()" by (rule unlock_long(1) [OF assms h])
  show "\<not> isLocked (snd (unlock now pw v))" by (rule unlock_long(2) [OF assms h])
  show "masterPassword (snd (unlock now pw v)) = Some pw" by (rule unlock_long(4) [OF assms h])
  show "wallets (storage (snd (unlock now pw v))) = wallets (storage v)"
    by (rule unlock_long(5) [OF assms h])
next
  fix wid w e
  assume h: "4 \<le> length pw \<and> loadWallet wid (storage v) = Some w
            \<and> decrypt L (encryptedPrivateKey w) pw = Inl e"
  let ?v' = "snd (unlock now pw v)"
  from h have len: "4 \<le> length pw" by simp
  have u: "ensureUnlocked ?v' = None"
    using unlock_long(2,3) [OF assms len] by (simp add: ensureUnlocked_None)
  have p: "masterPassword ?v' = Some pw" by (rule unlock_long(4) [OF assms len])
  have l: "loadWallet wid (storage ?v') = Some w"
    using h unlock_long(5) [OF assms len] by (simp add: loadWallet_def)
  have "decryptedData_of L (updateActivity now' ?v') w = Inl (Coded e)"
    using h by (simp add: decryptedData_of_def decrypt_with_def p)
  then show "fst (exportWallet L now' wid ?v') =
            Inl (createError DECRYPTION_FAILED (''Failed to export wallet: '' @ message e))"
    by (simp add: exportWallet_def u l Let_def thrown_message_def)
qed

lemma relocked_vault_eq:
  "relocked_vault =
     \<lparr>storage = \<lparr>fileSystem = False, wallets = [(''abandon about'', demo_wallet)],
                  stored_config = Some \<lparr>autoLock = Some True, lockTimeout = Some 900000\<rparr>,
                  locked = False\<rparr>,
      isInitialized = True, isLocked = True, masterPassword = None,
      config = \<lparr>autoLock = Some True, lockTimeout = Some 900000\<rparr>,
      lockTimeoutHandle = None, lastActivity = 3000\<rparr>"
  by (simp add: relocked_vault_def vault_with_wallet_eq lock_def ensureInitialized_def
      clearLockTimeout_def Let_def)

theorem unlock_password_gate_witness:
  "isInitialized relocked_vault \<and> isLocked relocked_vault \<and>
   fst (unlock 4000 ''abc'' relocked_vault) =
     Inl (createError INVALID_PASSWORD ''Invalid password provided'') \<and>
   fst (unlock 4000 ''letmein'' relocked_vault) = Inr () \<and>
   loadWallet ''abandon about'' (storage relocked_vault) = Some demo_wallet \<and>
   decrypt toy_libraries (encryptedPrivateKey demo_wallet) ''letmein'' =
     Inl (createError DECRYPTION_FAILED ''Decryption failed: bad decrypt'') \<and>
   fst (exportWallet toy_libraries 4500 ''abandon about'' (snd (unlock 4000 ''letmein'' relocked_vault))) =
     Inl (createError DECRYPTION_FAILED ''Failed to export wallet: Decryption failed: bad decrypt'')"
proof -
  have i: "isInitialized relocked_vault" and l: "isLocked relocked_vault"
    by (simp_all add: relocked_vault_eq)
  have w: "loadWallet ''abandon about'' (storage relocked_vault) = Some demo_wallet"
    by (simp add: relocked_vault_eq loadWallet_def)
  have d: "decrypt toy_libraries (encryptedPrivateKey demo_wallet) ''letmein'' =
     Inl (createError DECRYPTION_FAILED ''Decryption failed: bad decrypt'')"
    by (simp add: demo_wallet_def demo_decrypt_wrong)
  have m: "message (createError DECRYPTION_FAILED ''Decryption failed: bad decrypt'') =
     ''Decryption failed: bad decrypt''"
    by (simp add: createError_def)
  have s: "length ''abc'' < 4" and g: "4 \<le> length ''letmein''" by simp_all
  note t1 = unlock_password_gate [OF i l, of 4000 "''abc''" toy_libraries 4500]
  note t2 = unlock_password_gate [OF i l, of 4000 "''letmein''" toy_libraries 4500]
  from t1 s have a: "fst (unlock 4000 ''abc'' relocked_vault) =
     Inl (createError INVALID_PASSWORD ''Invalid password provided'')"
    by blast
  from t2 g have b: "fst (unlock 4000 ''letmein'' relocked_vault) = Inr ()"
    by blast
  from t2 g w d have "fst (exportWallet toy_libraries 4500 ''abandon about''
                  (snd (unlock 4000 ''letmein'' relocked_vault))) =
     Inl (createError DECRYPTION_FAILED (''Failed to export wallet: '' @
            message (createError DECRYPTION_FAILED ''Decryption failed: bad decrypt'')))"
    by blast
  then have c: "fst (exportWallet toy_libraries 4500 ''abandon about''
                  (snd (unlock 4000 ''letmein'' relocked_vault))) =
     Inl (createError DECRYPTION_FAILED ''Failed to export wallet: Decryption failed: bad decrypt'')"
    by (simp add: m)
  from i l w d a b c show ?thesis by blast
qed

section \<open>Properties of the tracker and of the protocol service\<close>

subsection \<open>Status updates\<close>









end
